theory Spec2Isabelle
  imports Main "HOL-Library.Word"
begin

section \<open>The dispatcher worker (worker.go)\<close>

text \<open>
  A shallow embedding of \<^verbatim>\<open>worker.go\<close>: worker creation (\<^verbatim>\<open>NewWorker\<close>), start
  (\<^verbatim>\<open>Start\<close>, \<^verbatim>\<open>init\<close>), the consumption loop (\<^verbatim>\<open>consume\<close>), the execution unit
  (\<^verbatim>\<open>consumeOne\<close>, \<^verbatim>\<open>reflectArgs\<close>, \<^verbatim>\<open>tryCall\<close>) and \<^verbatim>\<open>Close\<close>.

  Every function returns, next to its Go result, the list of the effects it performs in
  program order (log lines, broker calls, channel operations, handler calls) and the
  objects it mutates through a pointer (the caller's \<^verbatim>\<open>WorkerConfig\<close>, the server's
  registry, the worker). What the broker client, the JSON decoder, the value decoder and
  the handler answer is not decided by this file: those answers are parameters.
\<close>

subsection \<open>Data model\<close>

type_synonym go_error = string

text \<open>An \<^verbatim>\<open>*amqp.Channel\<close>; a nil pointer is \<open>None\<close> where the field is optional.\<close>
type_synonym amqp_Channel = nat

text \<open>
  A Go \<^verbatim>\<open>interface{}\<close> value as \<^verbatim>\<open>TaskArgument.Value\<close> holds it: a Go string, or
  any other dynamic value.
\<close>
datatype 'v any = GoString string | Other 'v

record 'v TaskArgument =
  Type :: string
  Value :: "'v any"

record 'v Task =
  Name :: string
  UUID :: string
  Args :: "'v TaskArgument list"

record WorkerConfig =
  Limit :: int
  Queue :: string
  BindingKeys :: "string list"
  Name :: string

text \<open>
  What \<^verbatim>\<open>reflect.ValueOf(Function).Call(args)\<close> does on the goroutine that runs it:
  it returns, it panics (the handler panics, or \<^verbatim>\<open>reflect\<close> does on a value that is
  not a function or on a wrong argument list), or it never returns.
\<close>
datatype call_outcome = Returns | Panics | Hangs

record 'r TaskConfig =
  TimeoutSeconds :: "64 word"
  Function :: "'r list \<Rightarrow> call_outcome"
  TaskUUIDAsFirstArg :: bool

text \<open>A Go channel value held in a field: nil, made and open, or closed.\<close>
datatype gochan = NilChan | OpenChan | ClosedChan

text \<open>
  The fields of \<^verbatim>\<open>Worker\<close> with a state of their own. The logger and the
  \<^verbatim>\<open>tasksInProgress\<close> pointer never change after creation: the wait group behind the
  pointer is shared by the goroutines, and its \<^verbatim>\<open>Add\<close>, \<^verbatim>\<open>Done\<close> and \<^verbatim>\<open>Wait\<close> are
  effects.
\<close>
record 'r Worker =
  ch :: "amqp_Channel option"
  stopConsume :: gochan
  consumingStopped :: gochan
  deliveries :: gochan
  queue :: string
  name :: string
  limit :: int
  tasks :: "string \<rightharpoonup> 'r TaskConfig"
  working :: bool

text \<open>
  The fields of \<^verbatim>\<open>Server\<close> that worker.go reads or writes: \<^verbatim>\<open>s.con.connected\<close>,
  \<^verbatim>\<open>s.workers\<close> and \<^verbatim>\<open>s.publisher.defaultExchange\<close>. The registry holds the worker
  made by \<^verbatim>\<open>NewWorker\<close>.
\<close>
record 'r Server =
  connected :: bool
  workers :: "string \<rightharpoonup> 'r Worker"
  defaultExchange :: string

record Delivery =
  Body :: string
  DeliveryTag :: nat

text \<open>The two signalling channels of a worker.\<close>
datatype signal = StopConsume | ConsumingStopped

text \<open>The effects of the code, in the order the code performs them.\<close>
datatype ('v, 'r) event =
    LogDebug string
  | LogInfo string
  | LogError string
  | ConChannel
  | DeclareQueue amqp_Channel string
  | QueueBind amqp_Channel string string string
  | ChClose amqp_Channel
  | Qos amqp_Channel int int bool
  | Consume amqp_Channel string string bool bool bool bool
  | GoConsume
  | Nack Delivery bool bool
  | Ack Delivery bool
  | WgAdd int
  | WgDone
  | WgWait
  | GoConsumeOne Delivery "'v Task"
  | Call "'r list"
  | GoCall "'r list"
  | NewTimer "64 word"
  | PrintStack
  | Send signal
  | Recv signal
  | CloseChan signal

text \<open>
  The answers of the collaborators: \<^verbatim>\<open>con.Channel()\<close>, the helpers \<^verbatim>\<open>declareQueue\<close>
  and \<^verbatim>\<open>queueBind\<close> (declared elsewhere in the package), \<^verbatim>\<open>Channel.Qos\<close>,
  \<^verbatim>\<open>Channel.Consume\<close>, \<^verbatim>\<open>Delivery.Nack\<close>, \<^verbatim>\<open>json.Unmarshal\<close> into a \<^verbatim>\<open>Task\<close> and
  \<^verbatim>\<open>utils.ReflectValue\<close>. An error is \<open>Some\<close> or \<open>Inl\<close>.
\<close>
record ('v, 'r) collaborators =
  con_Channel :: "go_error + amqp_Channel"
  declareQueue :: "amqp_Channel \<Rightarrow> string \<Rightarrow> go_error option"
  queueBind :: "amqp_Channel \<Rightarrow> string \<Rightarrow> string \<Rightarrow> string \<Rightarrow> go_error option"
  ch_Qos :: "amqp_Channel \<Rightarrow> int \<Rightarrow> int \<Rightarrow> bool \<Rightarrow> go_error option"
  ch_Consume :: "amqp_Channel \<Rightarrow> string \<Rightarrow> string \<Rightarrow> go_error option"
  d_Nack :: "Delivery \<Rightarrow> bool \<Rightarrow> bool \<Rightarrow> go_error option"
  json_Unmarshal :: "string \<Rightarrow> go_error + 'v Task"
  ReflectValue :: "string \<Rightarrow> 'v any \<Rightarrow> go_error + 'r"

subsection \<open>NewWorker\<close>

text \<open>
  The loop over \<^verbatim>\<open>cfg.BindingKeys\<close>: it stops at the first key whose binding fails,
  logs the error and returns it.
\<close>
fun bind_keys ::
  "('v, 'r) collaborators \<Rightarrow> amqp_Channel \<Rightarrow> string \<Rightarrow> string \<Rightarrow> string list
     \<Rightarrow> ('v, 'r) event list \<times> go_error option" where
  "bind_keys env c ex q [] = ([], None)"
| "bind_keys env c ex q (k # ks) =
     (case queueBind env c ex q k of
        Some err \<Rightarrow>
          ([QueueBind c ex q k, LogError (''Error during binding queue: '' @ err)], Some err)
      | None \<Rightarrow>
          (case bind_keys env c ex q ks of (evs, r) \<Rightarrow> (QueueBind c ex q k # evs, r)))"

text \<open>
  What a call of \<^verbatim>\<open>NewWorker\<close> leaves behind: its effects, the caller's
  \<^verbatim>\<open>WorkerConfig\<close> (passed by pointer), the server, and the returned pair as a sum.
\<close>
record ('v, 'r) NewWorker_out =
  nw_events :: "('v, 'r) event list"
  nw_cfg :: WorkerConfig
  nw_server :: "'r Server"
  nw_ret :: "go_error + 'r Worker"

definition NewWorker ::
  "('v, 'r) collaborators \<Rightarrow> 'r Server \<Rightarrow> WorkerConfig \<Rightarrow> (string \<rightharpoonup> 'r TaskConfig)
     \<Rightarrow> ('v, 'r) NewWorker_out" where
  "NewWorker env s cfg tsks =
    (if \<not> connected s then
       \<lparr>nw_events = [], nw_cfg = cfg, nw_server = s,
        nw_ret = Inl ''Can't create new worker, because you are not connected to AMQP''\<rparr>
     else if WorkerConfig.Name cfg = '''' then
       \<lparr>nw_events = [], nw_cfg = cfg, nw_server = s,
        nw_ret = Inl ''Worker name is required parameter''\<rparr>
     else
       let cfg1 = (if Limit cfg = 0 then cfg\<lparr>Limit := 3\<rparr> else cfg) in
       if Queue cfg1 = '''' then
         \<lparr>nw_events = [], nw_cfg = cfg1, nw_server = s,
          nw_ret = Inl ''Worker queue is required parameter''\<rparr>
       else if workers s (WorkerConfig.Name cfg1) \<noteq> None then
         \<lparr>nw_events = [], nw_cfg = cfg1, nw_server = s,
          nw_ret = Inl ''Worker with the same name already exists''\<rparr>
       else
         let w = \<lparr>ch = None, stopConsume = NilChan, consumingStopped = NilChan,
                  deliveries = NilChan, queue = Queue cfg1,
                  name = WorkerConfig.Name cfg1, limit = Limit cfg1, tasks = tsks,
                  working = False\<rparr> in
         (case con_Channel env of
            Inl err \<Rightarrow>
              \<lparr>nw_events = [ConChannel, LogError (''Error during creating channel: '' @ err)],
               nw_cfg = cfg1, nw_server = s, nw_ret = Inl err\<rparr>
          | Inr c \<Rightarrow>
              let w1 = w\<lparr>ch := Some c\<rparr> in
              (case declareQueue env c (Queue cfg1) of
                 Some err \<Rightarrow>
                   \<lparr>nw_events = [ConChannel, DeclareQueue c (Queue cfg1),
                                 LogError (''Error during declaring queue: '' @ err), ChClose c],
                    nw_cfg = cfg1, nw_server = s, nw_ret = Inl err\<rparr>
               | None \<Rightarrow>
                   (case bind_keys env c (defaultExchange s) (Queue cfg1) (BindingKeys cfg1) of
                      (evs, Some err) \<Rightarrow>
                        \<lparr>nw_events = [ConChannel, DeclareQueue c (Queue cfg1)] @ evs @ [ChClose c],
                         nw_cfg = cfg1, nw_server = s, nw_ret = Inl err\<rparr>
                    | (evs, None) \<Rightarrow>
                        \<lparr>nw_events = [ConChannel, DeclareQueue c (Queue cfg1)] @ evs @ [ChClose c],
                         nw_cfg = cfg1,
                         nw_server = s\<lparr>workers := (workers s)(WorkerConfig.Name cfg1 \<mapsto> w1)\<rparr>,
                         nw_ret = Inr w1\<rparr>))))"

subsection \<open>Start and init\<close>

record ('v, 'r) Start_out =
  st_events :: "('v, 'r) event list"
  st_worker :: "'r Worker"
  st_ret :: "go_error option"

definition init :: "('v, 'r) collaborators \<Rightarrow> 'r Worker \<Rightarrow> ('v, 'r) Start_out" where
  "init env w =
    (let w1 = w\<lparr>working := True, stopConsume := OpenChan, consumingStopped := OpenChan\<rparr> in
     case con_Channel env of
       Inl err \<Rightarrow>
         \<lparr>st_events = [ConChannel], st_worker = w1\<lparr>ch := None\<rparr>,
          st_ret = Some (''Error during creating channel for worker: '' @ err)\<rparr>
     | Inr c \<Rightarrow>
         let w2 = w1\<lparr>ch := Some c\<rparr> in
         (case ch_Qos env c (limit w2) 0 False of
            Some err \<Rightarrow>
              \<lparr>st_events = [ConChannel, Qos c (limit w2) 0 False], st_worker = w2,
               st_ret = Some (''Error during setting QoS for worker's channel: '' @ err)\<rparr>
          | None \<Rightarrow>
              (case ch_Consume env c (queue w2) (name w2) of
                 Some err \<Rightarrow>
                   \<lparr>st_events = [ConChannel, Qos c (limit w2) 0 False,
                                 Consume c (queue w2) (name w2) False False False False],
                    st_worker = w2\<lparr>deliveries := NilChan\<rparr>,
                    st_ret = Some (''Error during initialization queue consuming: '' @ err)\<rparr>
               | None \<Rightarrow>
                   \<lparr>st_events = [ConChannel, Qos c (limit w2) 0 False,
                                 Consume c (queue w2) (name w2) False False False False,
                                 GoConsume],
                    st_worker = w2\<lparr>deliveries := OpenChan\<rparr>,
                    st_ret = None\<rparr>)))"

definition Start ::
  "('v, 'r) collaborators \<Rightarrow> 'r Server \<Rightarrow> 'r Worker \<Rightarrow> ('v, 'r) Start_out" where
  "Start env s w =
    (if \<not> connected s then
       \<lparr>st_events = [], st_worker = w,
        st_ret = Some ''Can't start worker, because you are not connected to AMQP''\<rparr>
     else init env w)"

subsection \<open>The consumption loop\<close>

text \<open>
  One pass through the \<^verbatim>\<open>case d := <-deliveries\<close> branch of the \<^verbatim>\<open>select\<close>: the effects,
  and whether the loop goes on (\<open>True\<close>) or the function returns (\<open>False\<close>).
\<close>
definition consume_delivery ::
  "('v, 'r) collaborators \<Rightarrow> 'r Worker \<Rightarrow> Delivery \<Rightarrow> ('v, 'r) event list \<times> bool" where
  "consume_delivery env w d =
    (if length (Body d) = 0 then
       (case d_Nack env d False False of
          Some er \<Rightarrow>
            ([LogError ''Empty task received'', Nack d False False,
              LogError (''Consuming stopped: '' @ er)], False)
        | None \<Rightarrow> ([LogError ''Empty task received'', Nack d False False], True))
     else
       (case json_Unmarshal env (Body d) of
          Inl err \<Rightarrow>
            (case d_Nack env d False False of
               Some er \<Rightarrow> ([Nack d False False, LogError (''Consuming stopped: '' @ er)], False)
             | None \<Rightarrow>
                 ([Nack d False False,
                   LogError (''Can't unmarshal received task, task body: '' @ Body d)], True))
        | Inr task \<Rightarrow>
            (case tasks w (Task.Name task) of
               None \<Rightarrow>
                 (case d_Nack env d False True of
                    Some er \<Rightarrow>
                      ([Nack d False True, LogError (''Consuming stopped: '' @ er)], False)
                  | None \<Rightarrow>
                      ([Nack d False True,
                        LogError (''Received task ('' @ Task.Name task @ ''-'' @ UUID task @
                          '') which is not registered in this worker, task was requeued, '' @
                          ''but somebody should take it from this queue in other case error '' @
                          ''will be retried'')], True))
             | Some taskConfig \<Rightarrow> ([WgAdd 1, GoConsumeOne d task], True))))"

text \<open>What the \<^verbatim>\<open>select\<close> of the loop receives: a stop request or the next delivery.\<close>
datatype select_case = StopRequest | Delivered Delivery

text \<open>
  Where the loop is once the given receptions are used up: still waiting in its
  \<^verbatim>\<open>select\<close>, or returned.
\<close>
datatype loop_status = Selecting | Exited

fun consume_loop ::
  "('v, 'r) collaborators \<Rightarrow> 'r Worker \<Rightarrow> select_case list
     \<Rightarrow> ('v, 'r) event list \<times> loop_status" where
  "consume_loop env w [] = ([], Selecting)"
| "consume_loop env w (StopRequest # rest) =
     ([LogDebug ''Consuming stopped'', Send ConsumingStopped], Exited)"
| "consume_loop env w (Delivered d # rest) =
     (case consume_delivery env w d of
        (evs, False) \<Rightarrow> (evs, Exited)
      | (evs, True) \<Rightarrow>
          (case consume_loop env w rest of (evs', st) \<Rightarrow> (evs @ evs', st)))"

definition consume ::
  "('v, 'r) collaborators \<Rightarrow> 'r Worker \<Rightarrow> select_case list
     \<Rightarrow> ('v, 'r) event list \<times> loop_status" where
  "consume env w sel =
    (case consume_loop env w sel of
       (evs, st) \<Rightarrow> (LogInfo (''Worker '' @ name w @ '' started consuming'') # evs, st))"

subsection \<open>Close\<close>

text \<open>How a call ends: it returns, it blocks forever, or it panics.\<close>
datatype ending = Completes | BlocksForever | PanicsWith string

record ('v, 'r) Close_out =
  cl_events :: "('v, 'r) event list"
  cl_worker :: "'r Worker"
  cl_ending :: ending

text \<open>
  \<^verbatim>\<open>Close\<close> meets other goroutines at three points. \<open>listening\<close>: a consumption loop
  of this worker takes the stop request and sends its acknowledgment. \<open>drained\<close>: every
  started execution unit reaches its \<^verbatim>\<open>Done\<close>, so \<^verbatim>\<open>Wait\<close> returns. A send on a nil
  channel blocks forever, a send on a closed channel and the close of a closed channel
  panic, a receive from a closed channel returns at once.
\<close>
definition Close :: "bool \<Rightarrow> bool \<Rightarrow> 'r Worker \<Rightarrow> ('v, 'r) Close_out" where
  "Close listening drained w =
    (let e0 = [LogDebug (''Worker '' @ name w @ '' closing started'')] in
     if \<not> working w then \<lparr>cl_events = e0, cl_worker = w, cl_ending = Completes\<rparr>
     else
       let w1 = w\<lparr>working := False\<rparr>; e1 = e0 @ [Send StopConsume] in
       if stopConsume w1 = NilChan then
         \<lparr>cl_events = e1, cl_worker = w1, cl_ending = BlocksForever\<rparr>
       else if stopConsume w1 = ClosedChan then
         \<lparr>cl_events = e1, cl_worker = w1, cl_ending = PanicsWith ''send on closed channel''\<rparr>
       else if \<not> listening then
         \<lparr>cl_events = e1, cl_worker = w1, cl_ending = BlocksForever\<rparr>
       else
         let w2 = w1\<lparr>stopConsume := ClosedChan\<rparr>;
             e2 = e1 @ [CloseChan StopConsume, Recv ConsumingStopped] in
         if consumingStopped w2 = NilChan then
           \<lparr>cl_events = e2, cl_worker = w2, cl_ending = BlocksForever\<rparr>
         else if consumingStopped w2 = ClosedChan then
           \<lparr>cl_events = e2 @ [CloseChan ConsumingStopped], cl_worker = w2,
            cl_ending = PanicsWith ''close of closed channel''\<rparr>
         else
           let w3 = w2\<lparr>consumingStopped := ClosedChan\<rparr>;
               e3 = e2 @ [CloseChan ConsumingStopped, WgWait] in
           if \<not> drained then \<lparr>cl_events = e3, cl_worker = w3, cl_ending = BlocksForever\<rparr>
           else
             (case ch w3 of
                None \<Rightarrow>
                  \<lparr>cl_events = e3, cl_worker = w3,
                   cl_ending = PanicsWith ''nil pointer dereference''\<rparr>
              | Some c \<Rightarrow>
                  \<lparr>cl_events = e3 @ [ChClose c, LogInfo (''Worker '' @ name w @ '' is closed'')],
                   cl_worker = w3, cl_ending = Completes\<rparr>))"

text \<open>An operation of \<^verbatim>\<open>Close\<close> that waits for another goroutine.\<close>
fun blocking :: "('v, 'r) event \<Rightarrow> bool" where
  "blocking (Send _) = True"
| "blocking (Recv _) = True"
| "blocking WgWait = True"
| "blocking _ = False"

subsection \<open>The execution unit\<close>

fun reflectArgs ::
  "('v, 'r) collaborators \<Rightarrow> 'v TaskArgument list \<Rightarrow> go_error + 'r list" where
  "reflectArgs env [] = Inr []"
| "reflectArgs env (arg # args) =
     (case ReflectValue env (Type arg) (Value arg) of
        Inl err \<Rightarrow> Inl err
      | Inr argValue \<Rightarrow>
          (case reflectArgs env args of
             Inl err \<Rightarrow> Inl err
           | Inr argValues \<Rightarrow> Inr (argValue # argValues)))"

text \<open>
  What a call of \<^verbatim>\<open>tryCall\<close> does: its effects, the flag it returns (\<open>None\<close> when it
  never returns), and whether a panic escapes every \<^verbatim>\<open>recover\<close>, which ends the process.
\<close>
record ('v, 'r) tryCall_out =
  tc_events :: "('v, 'r) event list"
  tc_ret :: "bool option"
  tc_crash :: bool

text \<open>
  With \<^verbatim>\<open>timeoutSeconds == 0\<close> the handler runs on the goroutine of \<^verbatim>\<open>tryCall\<close>, below
  its deferred \<^verbatim>\<open>recover\<close>: a panic is caught there, the stack is printed, and the named
  result keeps its zero value \<^verbatim>\<open>false\<close>. Otherwise the handler runs on a goroutine of its
  own, started by \<^verbatim>\<open>go func() { resultsChan <- f.Call(args) }()\<close>, which defers nothing:
  a Go \<^verbatim>\<open>recover\<close> only sees a panic of the goroutine that deferred it, so a panic of
  the handler there ends the process. \<open>timer_first\<close> is the outcome of the race in the
  \<^verbatim>\<open>select\<close>: the timer fires before the handler's goroutine is through with
  \<^verbatim>\<open>f.Call\<close>; a handler that never returns always loses the race.
\<close>
definition tryCall ::
  "('r list \<Rightarrow> call_outcome) \<Rightarrow> 'r list \<Rightarrow> 64 word \<Rightarrow> bool \<Rightarrow> ('v, 'r) tryCall_out" where
  "tryCall f args timeoutSeconds timer_first =
    (if timeoutSeconds = 0 then
       (case f args of
          Returns \<Rightarrow> \<lparr>tc_events = [Call args], tc_ret = Some False, tc_crash = False\<rparr>
        | Panics \<Rightarrow>
            \<lparr>tc_events = [Call args, PrintStack], tc_ret = Some False, tc_crash = False\<rparr>
        | Hangs \<Rightarrow> \<lparr>tc_events = [Call args], tc_ret = None, tc_crash = False\<rparr>)
     else
       (case f args of
          Returns \<Rightarrow>
            \<lparr>tc_events = [NewTimer timeoutSeconds, GoCall args],
             tc_ret = Some timer_first, tc_crash = False\<rparr>
        | Panics \<Rightarrow>
            \<lparr>tc_events = [NewTimer timeoutSeconds, GoCall args],
             tc_ret = (if timer_first then Some True else None), tc_crash = True\<rparr>
        | Hangs \<Rightarrow>
            \<lparr>tc_events = [NewTimer timeoutSeconds, GoCall args],
             tc_ret = Some True, tc_crash = False\<rparr>))"

text \<open>
  What a call of \<^verbatim>\<open>consumeOne\<close> does: the effects of its own goroutine in program order,
  whether it runs to its end (the deferred \<^verbatim>\<open>Done\<close> included), and whether a panic of
  the handler ends the process.
\<close>
record ('v, 'r) consumeOne_out =
  co_events :: "('v, 'r) event list"
  co_finished :: bool
  co_crash :: bool

text \<open>
  The argument list after the \<^verbatim>\<open>if taskConfig.TaskUUIDAsFirstArg\<close> block of
  \<^verbatim>\<open>consumeOne\<close>: \<^verbatim>\<open>append([]TaskArgument{{"string", task.UUID}}, task.Args...)\<close>, or
  \<^verbatim>\<open>task.Args\<close> as it came.
\<close>
definition callArgs :: "'r TaskConfig \<Rightarrow> 'v Task \<Rightarrow> 'v TaskArgument list" where
  "callArgs taskConfig task =
    (if TaskUUIDAsFirstArg taskConfig
     then \<lparr>Type = ''string'', Value = GoString (UUID task)\<rparr> # Args task
     else Args task)"

definition consumeOne ::
  "('v, 'r) collaborators \<Rightarrow> 'r Worker \<Rightarrow> Delivery \<Rightarrow> 'v Task \<Rightarrow> 'r TaskConfig \<Rightarrow> bool
     \<Rightarrow> ('v, 'r) consumeOne_out" where
  "consumeOne env w d task taskConfig timer_first =
    (let e0 = [LogInfo (''Handling task '' @ UUID task)] in
     case reflectArgs env (callArgs taskConfig task) of
       Inl err \<Rightarrow>
         \<lparr>co_events = e0 @ [Nack d False False,
            LogError (''Can't reflect task ('' @ UUID task @ '') arguments: '' @ err), WgDone],
          co_finished = True, co_crash = False\<rparr>
     | Inr reflectedTaskArgs \<Rightarrow>
         let r = tryCall (Function taskConfig) reflectedTaskArgs (TimeoutSeconds taskConfig)
                   timer_first in
         (case tc_ret r of
            None \<Rightarrow>
              \<lparr>co_events = e0 @ tc_events r, co_finished = False, co_crash = tc_crash r\<rparr>
          | Some timeouted \<Rightarrow>
              \<lparr>co_events = e0 @ tc_events r @
                 [LogInfo (if timeouted
                           then ''Task '' @ UUID task @ '' exceeded timeout, taking next task''
                           else ''Task '' @ UUID task @ '' was finished''),
                  Ack d False, WgDone],
               co_finished = True, co_crash = tc_crash r\<rparr>))"

text \<open>The acknowledgment decisions among the effects.\<close>
fun is_decision :: "('v, 'r) event \<Rightarrow> bool" where
  "is_decision (Nack _ _ _) = True"
| "is_decision (Ack _ _) = True"
| "is_decision _ = False"

definition decisions :: "('v, 'r) event list \<Rightarrow> ('v, 'r) event list" where
  "decisions evs = filter is_decision evs"

text \<open>The handler invocations among the effects, on either goroutine.\<close>
fun is_call :: "('v, 'r) event \<Rightarrow> bool" where
  "is_call (Call _) = True"
| "is_call (GoCall _) = True"
| "is_call _ = False"

fun is_Qos :: "('v, 'r) event \<Rightarrow> bool" where
  "is_Qos (Qos _ _ _ _) = True"
| "is_Qos _ = False"

fun is_log :: "('v, 'r) event \<Rightarrow> bool" where
  "is_log (LogDebug _) = True"
| "is_log (LogInfo _) = True"
| "is_log (LogError _) = True"
| "is_log _ = False"

subsection \<open>Concrete inputs\<close>

text \<open>
  A broker on which every call succeeds. The JSON decoder knows two bodies, and the
  value decoder the type tags \<^verbatim>\<open>string\<close> and \<^verbatim>\<open>int\<close>; raw values and decoded values are
  both written as text.
\<close>
definition env_ok :: "(string, string) collaborators" where
  "env_ok =
    \<lparr>con_Channel = Inr 1,
     declareQueue = (\<lambda>c q. None),
     queueBind = (\<lambda>c ex q k. None),
     ch_Qos = (\<lambda>c n sz g. None),
     ch_Consume = (\<lambda>c q tag. None),
     d_Nack = (\<lambda>d m r. None),
     json_Unmarshal = (\<lambda>b.
       if b = ''add'' then
         Inr \<lparr>Task.Name = ''add'', UUID = ''u-1'', Args = [\<lparr>Type = ''int'', Value = Other ''7''\<rparr>]\<rparr>
       else if b = ''mul'' then Inr \<lparr>Task.Name = ''mul'', UUID = ''u-2'', Args = []\<rparr>
       else Inl ''unexpected end of JSON input''),
     ReflectValue = (\<lambda>t v.
       if t = ''string'' then (case v of GoString x \<Rightarrow> Inr x | Other x \<Rightarrow> Inl ''not a string'')
       else if t = ''int'' then (case v of GoString x \<Rightarrow> Inl ''not an int'' | Other x \<Rightarrow> Inr x)
       else Inl ''unsupported type'')\<rparr>"

definition s0 :: "string Server" where
  "s0 = \<lparr>connected = True, workers = Map.empty, defaultExchange = ''dispatcher''\<rparr>"

definition cfg0 :: WorkerConfig where
  "cfg0 = \<lparr>Limit = 0, Queue = ''q1'', BindingKeys = [''k1'', ''k2''], Name = ''w1''\<rparr>"

definition cfg_noname :: WorkerConfig where
  "cfg_noname = \<lparr>Limit = 0, Queue = ''q1'', BindingKeys = [''k1'', ''k2''], Name = []\<rparr>"

definition cfg_noqueue :: WorkerConfig where
  "cfg_noqueue = \<lparr>Limit = 0, Queue = [], BindingKeys = [''k1''], Name = ''w2''\<rparr>"

text \<open>The worker that \<^verbatim>\<open>NewWorker\<close> makes from \<open>cfg0\<close> on \<open>env_ok\<close>.\<close>
definition w0 :: "string Worker" where
  "w0 = \<lparr>ch = Some 1, stopConsume = NilChan, consumingStopped = NilChan, deliveries = NilChan,
         queue = ''q1'', name = ''w1'', limit = 3, tasks = Map.empty, working = False\<rparr>"

text \<open>The server \<open>s0\<close> with \<open>w0\<close> registered.\<close>
definition s_w1 :: "string Server" where
  "s_w1 = s0\<lparr>workers := [''w1'' \<mapsto> w0]\<rparr>"

text \<open>Brokers on which one call of \<^verbatim>\<open>init\<close> fails.\<close>
definition env_nochannel :: "(string, string) collaborators" where
  "env_nochannel = env_ok\<lparr>con_Channel := Inl ''channel/connection is not open''\<rparr>"

definition env_noqos :: "(string, string) collaborators" where
  "env_noqos = env_ok\<lparr>ch_Qos := (\<lambda>c n sz g. Some ''channel/connection is not open'')\<rparr>"

definition env_noconsume :: "(string, string) collaborators" where
  "env_noconsume = env_ok\<lparr>ch_Consume := (\<lambda>c q tag. Some ''channel/connection is not open'')\<rparr>"

text \<open>The worker \<open>w0\<close> after a successful \<^verbatim>\<open>Start\<close>.\<close>
definition w_started :: "string Worker" where
  "w_started = w0\<lparr>ch := Some 1, stopConsume := OpenChan, consumingStopped := OpenChan,
                  deliveries := OpenChan, working := True\<rparr>"

text \<open>A broker whose channel is closed: every \<^verbatim>\<open>Nack\<close> returns an error.\<close>
definition env_nonack :: "(string, string) collaborators" where
  "env_nonack = env_ok\<lparr>d_Nack := (\<lambda>d m r. Some ''channel/connection is not open'')\<rparr>"

text \<open>Deliveries, tasks and task configurations.\<close>
definition d_bad :: Delivery where
  "d_bad = \<lparr>Body = ''{'', DeliveryTag = 7\<rparr>"

text \<open>The error line of the loop that carries the raw payload of a delivery.\<close>
definition payload_log :: "Delivery \<Rightarrow> ('v, 'r) event" where
  "payload_log d = LogError (''Can't unmarshal received task, task body: '' @ Body d)"

definition tc_panic :: "string TaskConfig" where
  "tc_panic = \<lparr>TimeoutSeconds = 1, Function = (\<lambda>args. Panics), TaskUUIDAsFirstArg = False\<rparr>"

definition tc_panic_sync :: "string TaskConfig" where
  "tc_panic_sync = \<lparr>TimeoutSeconds = 0, Function = (\<lambda>args. Panics), TaskUUIDAsFirstArg = False\<rparr>"

definition task_mul :: "string Task" where
  "task_mul = \<lparr>Task.Name = ''mul'', UUID = ''u-2'', Args = []\<rparr>"

definition d_mul :: Delivery where
  "d_mul = \<lparr>Body = ''mul'', DeliveryTag = 2\<rparr>"

definition tc_add :: "string TaskConfig" where
  "tc_add = \<lparr>TimeoutSeconds = 0,
             Function = (\<lambda>args. if length args = 2 then Returns else Panics),
             TaskUUIDAsFirstArg = True\<rparr>"

definition tc_slow :: "string TaskConfig" where
  "tc_slow = \<lparr>TimeoutSeconds = 5, Function = (\<lambda>args. Hangs), TaskUUIDAsFirstArg = False\<rparr>"

definition tc_race :: "string TaskConfig" where
  "tc_race = \<lparr>TimeoutSeconds = 5, Function = (\<lambda>args. Returns), TaskUUIDAsFirstArg = False\<rparr>"

definition task_add :: "string Task" where
  "task_add = \<lparr>Task.Name = ''add'', UUID = ''u-1'', Args = [\<lparr>Type = ''int'', Value = Other ''7''\<rparr>]\<rparr>"

definition task_badarg :: "string Task" where
  "task_badarg =
     \<lparr>Task.Name = ''add'', UUID = ''u-3'', Args = [\<lparr>Type = ''float'', Value = Other ''1.5''\<rparr>]\<rparr>"

definition d_add :: Delivery where
  "d_add = \<lparr>Body = ''add'', DeliveryTag = 1\<rparr>"

definition d_empty :: Delivery where
  "d_empty = \<lparr>Body = [], DeliveryTag = 0\<rparr>"

definition w_add :: "string Worker" where
  "w_add = w_started\<lparr>tasks := [''add'' \<mapsto> tc_add]\<rparr>"

text \<open>The server \<open>s0\<close> without its connection.\<close>
definition s_off :: "string Server" where
  "s_off = s0\<lparr>connected := False\<rparr>"

text \<open>A started worker whose dispatch table maps \<^verbatim>\<open>mul\<close> to the panicking handler.\<close>
definition w_panic :: "string Worker" where
  "w_panic = w_started\<lparr>tasks := [''mul'' \<mapsto> tc_panic]\<rparr>"

section \<open>Properties\<close>

subsection \<open>Worker creation\<close>

lemma bind_keys_ok:
  "bind_keys env c ex q ks = (evs, None) \<Longrightarrow> \<forall>k\<in>set ks. queueBind env c ex q k = None"
  by (induction ks arbitrary: evs) (auto split: option.splits prod.splits)

lemma NewWorker_Inl_server:
  "nw_ret (NewWorker env s cfg tsks) = Inl err \<Longrightarrow> nw_server (NewWorker env s cfg tsks) = s"
  by (auto simp: NewWorker_def Let_def split: if_splits sum.splits option.splits prod.splits)

lemma NewWorker_Inr:
  assumes "nw_ret (NewWorker env s cfg tsks) = Inr w"
  shows "connected s \<and> WorkerConfig.Name cfg \<noteq> [] \<and> Queue cfg \<noteq> []
    \<and> workers s (WorkerConfig.Name cfg) = None
    \<and> (\<exists>c. con_Channel env = Inr c \<and> declareQueue env c (Queue cfg) = None
          \<and> (\<forall>k\<in>set (BindingKeys cfg).
                queueBind env c (defaultExchange s) (Queue cfg) k = None)
          \<and> ch w = Some c)
    \<and> nw_server (NewWorker env s cfg tsks) =
        s\<lparr>workers := (workers s)(WorkerConfig.Name cfg \<mapsto> w)\<rparr>
    \<and> name w = WorkerConfig.Name cfg \<and> queue w = Queue cfg
    \<and> limit w = (if Limit cfg = 0 then 3 else Limit cfg) \<and> tasks w = tsks \<and> \<not> working w"
  using assms
  by (auto simp: NewWorker_def Let_def
      split: if_splits sum.splits option.splits prod.splits dest: bind_keys_ok)

lemma NewWorker_duplicate:
  "workers s (WorkerConfig.Name cfg) = Some w \<Longrightarrow> isl (nw_ret (NewWorker env s cfg tsks))"
  by (auto simp: NewWorker_def Let_def split: if_splits sum.splits option.splits prod.splits)

lemma NewWorker_env_ok_cfg0:
  "NewWorker env_ok s0 cfg0 Map.empty =
     \<lparr>nw_events = [ConChannel, DeclareQueue 1 ''q1'', QueueBind 1 ''dispatcher'' ''q1'' ''k1'',
                   QueueBind 1 ''dispatcher'' ''q1'' ''k2'', ChClose 1],
      nw_cfg = cfg0\<lparr>Limit := 3\<rparr>,
      nw_server = s0\<lparr>workers := [''w1'' \<mapsto> w0]\<rparr>,
      nw_ret = Inr w0\<rparr>"
  by (simp add: NewWorker_def env_ok_def s0_def cfg0_def w0_def Let_def)

text \<open>
  C4. A call of \<^verbatim>\<open>NewWorker\<close> that returns an error leaves the server, and so its
  registry, as it was: no entry is made. A call that succeeds found the name free, got
  its channel, declared the queue and bound every key without error, and only then
  registered the new worker under the name; any later creation under the same name
  fails, and the registry still maps the name to the first worker.
\<close>
theorem NewWorker_registry:
  fixes env :: "('v, 'r) collaborators"
  shows
  "(nw_ret (NewWorker env s cfg tsks) = Inl err \<longrightarrow>
      nw_server (NewWorker env s cfg tsks) = s)
   \<and> (nw_ret (NewWorker env s cfg tsks) = Inr w \<longrightarrow>
        connected s \<and> WorkerConfig.Name cfg \<noteq> [] \<and> Queue cfg \<noteq> []
      \<and> workers s (WorkerConfig.Name cfg) = None
      \<and> workers (nw_server (NewWorker env s cfg tsks)) =
          (workers s)(WorkerConfig.Name cfg \<mapsto> w)
      \<and> (\<exists>c. con_Channel env = Inr c \<and> declareQueue env c (Queue cfg) = None
            \<and> (\<forall>k\<in>set (BindingKeys cfg).
                  queueBind env c (defaultExchange s) (Queue cfg) k = None))
      \<and> (\<forall>(env2 :: ('v, 'r) collaborators) cfg2 tsks2.
            WorkerConfig.Name cfg2 = WorkerConfig.Name cfg \<longrightarrow>
            isl (nw_ret (NewWorker env2 (nw_server (NewWorker env s cfg tsks)) cfg2 tsks2))
          \<and> workers (nw_server (NewWorker env2 (nw_server (NewWorker env s cfg tsks)) cfg2 tsks2))
               (WorkerConfig.Name cfg) = Some w))"
proof (intro conjI impI)
  assume "nw_ret (NewWorker env s cfg tsks) = Inl err"
  then show "nw_server (NewWorker env s cfg tsks) = s" by (rule NewWorker_Inl_server)
next
  assume ok: "nw_ret (NewWorker env s cfg tsks) = Inr w"
  note facts = NewWorker_Inr [OF ok]
  from facts show "connected s" by simp
  from facts show "WorkerConfig.Name cfg \<noteq> []" by simp
  from facts show "Queue cfg \<noteq> []" by simp
  from facts show "workers s (WorkerConfig.Name cfg) = None" by simp
  from facts show reg: "workers (nw_server (NewWorker env s cfg tsks)) =
      (workers s)(WorkerConfig.Name cfg \<mapsto> w)"
    by simp
  from facts show "\<exists>c. con_Channel env = Inr c \<and> declareQueue env c (Queue cfg) = None
      \<and> (\<forall>k\<in>set (BindingKeys cfg). queueBind env c (defaultExchange s) (Queue cfg) k = None)"
    by blast
  show "\<forall>(env2 :: ('v, 'r) collaborators) cfg2 tsks2.
      WorkerConfig.Name cfg2 = WorkerConfig.Name cfg \<longrightarrow>
      isl (nw_ret (NewWorker env2 (nw_server (NewWorker env s cfg tsks)) cfg2 tsks2))
      \<and> workers (nw_server (NewWorker env2 (nw_server (NewWorker env s cfg tsks)) cfg2 tsks2))
           (WorkerConfig.Name cfg) = Some w"
  proof (intro allI impI)
    fix env2 :: "('v, 'r) collaborators" and cfg2 :: WorkerConfig
      and tsks2 :: "string \<rightharpoonup> 'r TaskConfig"
    assume same: "WorkerConfig.Name cfg2 = WorkerConfig.Name cfg"
    let ?s1 = "nw_server (NewWorker env s cfg tsks)"
    have held: "workers ?s1 (WorkerConfig.Name cfg2) = Some w" using reg same by simp
    have fails: "isl (nw_ret (NewWorker env2 ?s1 cfg2 tsks2))"
      using held by (rule NewWorker_duplicate)
    then obtain e where "nw_ret (NewWorker env2 ?s1 cfg2 tsks2) = Inl e"
      by (cases "nw_ret (NewWorker env2 ?s1 cfg2 tsks2)") auto
    then have "nw_server (NewWorker env2 ?s1 cfg2 tsks2) = ?s1" by (rule NewWorker_Inl_server)
    with fails held same
    show "isl (nw_ret (NewWorker env2 ?s1 cfg2 tsks2))
        \<and> workers (nw_server (NewWorker env2 ?s1 cfg2 tsks2)) (WorkerConfig.Name cfg) = Some w"
      by simp
  qed
qed

theorem NewWorker_registry_witness:
  "nw_ret (NewWorker env_ok s0 cfg_noname Map.empty) = Inl ''Worker name is required parameter''
   \<and> nw_server (NewWorker env_ok s0 cfg_noname Map.empty) = s0
   \<and> nw_ret (NewWorker env_ok s0 cfg0 Map.empty) = Inr w0
   \<and> workers s0 ''w1'' = None
   \<and> workers (nw_server (NewWorker env_ok s0 cfg0 Map.empty)) = [''w1'' \<mapsto> w0]
   \<and> WorkerConfig.Name cfg0 = ''w1''
   \<and> isl (nw_ret (NewWorker env_ok (nw_server (NewWorker env_ok s0 cfg0 Map.empty)) cfg0 Map.empty))
   \<and> workers (nw_server
        (NewWorker env_ok (nw_server (NewWorker env_ok s0 cfg0 Map.empty)) cfg0 Map.empty)) ''w1''
       = Some w0"
proof -
  have bad: "nw_ret (NewWorker env_ok s0 cfg_noname Map.empty) =
      Inl ''Worker name is required parameter''"
    by (simp add: NewWorker_def s0_def cfg_noname_def)
  have ok: "nw_ret (NewWorker env_ok s0 cfg0 Map.empty) = Inr w0"
    by (simp add: NewWorker_env_ok_cfg0)
  have nm: "WorkerConfig.Name cfg0 = ''w1''" by (simp add: cfg0_def)
  have free: "workers s0 ''w1'' = None" by (simp add: s0_def)
  from NewWorker_registry [of env_ok s0 cfg_noname Map.empty
      "''Worker name is required parameter''" w0] bad
  have a: "nw_server (NewWorker env_ok s0 cfg_noname Map.empty) = s0" by blast
  from NewWorker_registry [of env_ok s0 cfg0 Map.empty "''x''" w0] ok
  have b: "workers (nw_server (NewWorker env_ok s0 cfg0 Map.empty)) =
        (workers s0)(WorkerConfig.Name cfg0 \<mapsto> w0)"
    and c: "\<forall>(env2 :: (string, string) collaborators) cfg2 tsks2.
        WorkerConfig.Name cfg2 = WorkerConfig.Name cfg0 \<longrightarrow>
        isl (nw_ret (NewWorker env2 (nw_server (NewWorker env_ok s0 cfg0 Map.empty)) cfg2 tsks2))
        \<and> workers (nw_server
             (NewWorker env2 (nw_server (NewWorker env_ok s0 cfg0 Map.empty)) cfg2 tsks2))
             (WorkerConfig.Name cfg0) = Some w0"
    by blast+
  from b have b': "workers (nw_server (NewWorker env_ok s0 cfg0 Map.empty)) = [''w1'' \<mapsto> w0]"
    by (simp add: nm s0_def)
  from c [rule_format, of cfg0 env_ok Map.empty] nm
  have d: "isl (nw_ret
        (NewWorker env_ok (nw_server (NewWorker env_ok s0 cfg0 Map.empty)) cfg0 Map.empty))
      \<and> workers (nw_server
          (NewWorker env_ok (nw_server (NewWorker env_ok s0 cfg0 Map.empty)) cfg0 Map.empty)) ''w1''
         = Some w0"
    by simp
  from bad a ok free b' nm d show ?thesis by blast
qed

text \<open>
  C10, as stated, at two calls. With an empty \<^verbatim>\<open>Name\<close>, and on a server that is not
  connected, \<^verbatim>\<open>NewWorker\<close> returns at its first checks, before the line that defaults
  the limit: a \<^verbatim>\<open>Limit\<close> of 0 is still 0 after the call.
\<close>
theorem NewWorker_cfg_limit_counterexample:
  "Limit cfg_noname = 0
   \<and> nw_ret (NewWorker env_ok s0 cfg_noname Map.empty) = Inl ''Worker name is required parameter''
   \<and> nw_cfg (NewWorker env_ok s0 cfg_noname Map.empty) = cfg_noname
   \<and> Limit (nw_cfg (NewWorker env_ok s0 cfg_noname Map.empty)) = 0
   \<and> Limit cfg0 = 0
   \<and> nw_ret (NewWorker env_ok s_off cfg0 Map.empty) =
       Inl ''Can't create new worker, because you are not connected to AMQP''
   \<and> nw_cfg (NewWorker env_ok s_off cfg0 Map.empty) = cfg0
   \<and> Limit (nw_cfg (NewWorker env_ok s_off cfg0 Map.empty)) = 0"
  by (simp add: NewWorker_def s_off_def s0_def cfg_noname_def cfg0_def)

text \<open>
  C10, amended. \<^verbatim>\<open>NewWorker\<close> writes to the caller's \<^verbatim>\<open>WorkerConfig\<close> in one place
  only: in a call that passes the connection check and the name check, a \<^verbatim>\<open>Limit\<close> of 0
  becomes 3 before the queue check and the duplicate check; a call that one of the first
  two checks rejects leaves the configuration as it was. The write does not depend on
  what the call returns, so it stays when the call fails afterwards; \<^verbatim>\<open>Queue\<close>,
  \<^verbatim>\<open>BindingKeys\<close> and \<^verbatim>\<open>Name\<close> are never changed.
\<close>
theorem NewWorker_cfg_frame:
  "nw_cfg (NewWorker env s cfg tsks) =
     (if connected s \<and> WorkerConfig.Name cfg \<noteq> [] \<and> Limit cfg = 0
      then cfg\<lparr>Limit := 3\<rparr> else cfg)
   \<and> Queue (nw_cfg (NewWorker env s cfg tsks)) = Queue cfg
   \<and> BindingKeys (nw_cfg (NewWorker env s cfg tsks)) = BindingKeys cfg
   \<and> WorkerConfig.Name (nw_cfg (NewWorker env s cfg tsks)) = WorkerConfig.Name cfg
   \<and> (connected s \<and> WorkerConfig.Name cfg \<noteq> [] \<and> Limit cfg = 0
        \<and> nw_ret (NewWorker env s cfg tsks) = Inl err \<longrightarrow>
      nw_cfg (NewWorker env s cfg tsks) = cfg\<lparr>Limit := 3\<rparr>)"
proof -
  have eq: "nw_cfg (NewWorker env s cfg tsks) =
     (if connected s \<and> WorkerConfig.Name cfg \<noteq> [] \<and> Limit cfg = 0
      then cfg\<lparr>Limit := 3\<rparr> else cfg)"
    by (simp add: NewWorker_def Let_def split: sum.splits option.splits prod.splits)
  show ?thesis unfolding eq by simp
qed

theorem NewWorker_cfg_frame_witness:
  "connected s0 \<and> WorkerConfig.Name cfg_noqueue \<noteq> [] \<and> Limit cfg_noqueue = 0
   \<and> nw_ret (NewWorker env_ok s0 cfg_noqueue Map.empty) = Inl ''Worker queue is required parameter''
   \<and> nw_cfg (NewWorker env_ok s0 cfg_noqueue Map.empty) = cfg_noqueue\<lparr>Limit := 3\<rparr>
   \<and> connected s_w1 \<and> WorkerConfig.Name cfg0 \<noteq> [] \<and> Limit cfg0 = 0
   \<and> nw_ret (NewWorker env_ok s_w1 cfg0 Map.empty) = Inl ''Worker with the same name already exists''
   \<and> nw_cfg (NewWorker env_ok s_w1 cfg0 Map.empty) = cfg0\<lparr>Limit := 3\<rparr>"
proof -
  have h1: "connected s0 \<and> WorkerConfig.Name cfg_noqueue \<noteq> [] \<and> Limit cfg_noqueue = 0"
    by (simp add: s0_def cfg_noqueue_def)
  have r1: "nw_ret (NewWorker env_ok s0 cfg_noqueue Map.empty) =
      Inl ''Worker queue is required parameter''"
    by (simp add: NewWorker_def s0_def cfg_noqueue_def)
  have h2: "connected s_w1 \<and> WorkerConfig.Name cfg0 \<noteq> [] \<and> Limit cfg0 = 0"
    by (simp add: s_w1_def s0_def cfg0_def)
  have r2: "nw_ret (NewWorker env_ok s_w1 cfg0 Map.empty) =
      Inl ''Worker with the same name already exists''"
    by (simp add: NewWorker_def s_w1_def s0_def cfg0_def)
  from NewWorker_cfg_frame [of env_ok s0 cfg_noqueue Map.empty
      "''Worker queue is required parameter''"] h1 r1
  have a: "nw_cfg (NewWorker env_ok s0 cfg_noqueue Map.empty) = cfg_noqueue\<lparr>Limit := 3\<rparr>"
    by blast
  from NewWorker_cfg_frame [of env_ok s_w1 cfg0 Map.empty
      "''Worker with the same name already exists''"] h2 r2
  have b: "nw_cfg (NewWorker env_ok s_w1 cfg0 Map.empty) = cfg0\<lparr>Limit := 3\<rparr>"
    by blast
  from h1 r1 a h2 r2 b show ?thesis by blast
qed

subsection \<open>Start\<close>

lemma init_working: "working (st_worker (init env w))"
  by (simp add: init_def Let_def split: sum.splits option.splits)

lemma Start_Qos:
  "connected s \<Longrightarrow> con_Channel env = Inr c \<Longrightarrow>
   filter is_Qos (st_events (Start env s w)) = [Qos c (limit w) 0 False]"
  by (simp add: Start_def init_def Let_def split: sum.splits option.splits)

lemma Start_Qos_only:
  "e \<in> set (st_events (Start env s w)) \<Longrightarrow> is_Qos e \<Longrightarrow> \<exists>c. e = Qos c (limit w) 0 False"
  by (auto simp: Start_def init_def Let_def split: sum.splits option.splits if_splits)

lemma Start_env_ok_w0:
  "Start env_ok s0 w0 =
     \<lparr>st_events = [ConChannel, Qos 1 3 0 False, Consume 1 ''q1'' ''w1'' False False False False,
                   GoConsume],
      st_worker = w_started, st_ret = None\<rparr>"
  by (simp add: Start_def init_def Let_def s0_def w0_def env_ok_def w_started_def)

text \<open>
  C5. A worker created from a \<^verbatim>\<open>WorkerConfig\<close> with \<^verbatim>\<open>Limit\<close> 0 has limit 3. When
  \<^verbatim>\<open>Start\<close> is connected and gets its channel, it sets the prefetch exactly once, to
  count 3, size 0, not global; no call of \<^verbatim>\<open>Start\<close> on that worker sets any other value.
\<close>
theorem Limit_zero_prefetch_three:
  fixes env :: "('v, 'r) collaborators" and env2 :: "('v, 'r) collaborators"
  assumes "Limit cfg = 0" and "nw_ret (NewWorker env s cfg tsks) = Inr w"
  shows "limit w = 3
    \<and> (connected s2 \<and> con_Channel env2 = Inr c \<longrightarrow>
         filter is_Qos (st_events (Start env2 s2 w)) = [Qos c 3 0 False])
    \<and> (\<forall>e\<in>set (st_events (Start env2 s2 w)). is_Qos e \<longrightarrow> (\<exists>c'. e = Qos c' 3 0 False))"
proof -
  from NewWorker_Inr [OF assms(2)] assms(1) have l: "limit w = 3" by simp
  show ?thesis using l Start_Qos [of s2 env2 c w] Start_Qos_only [of _ env2 s2 w] by auto
qed

theorem Limit_zero_prefetch_three_witness:
  "Limit cfg0 = 0 \<and> nw_ret (NewWorker env_ok s0 cfg0 Map.empty) = Inr w0 \<and> limit w0 = 3
   \<and> connected s0 \<and> con_Channel env_ok = Inr 1
   \<and> filter is_Qos (st_events (Start env_ok s0 w0)) = [Qos 1 3 0 False]
   \<and> Qos 1 3 0 False \<in> set (st_events (Start env_ok s0 w0))
   \<and> is_Qos (Qos 1 3 0 False :: (string, string) event)"
proof -
  have h1: "Limit cfg0 = 0" by (simp add: cfg0_def)
  have h2: "nw_ret (NewWorker env_ok s0 cfg0 Map.empty) = Inr w0"
    by (simp add: NewWorker_env_ok_cfg0)
  have h3: "connected s0 \<and> con_Channel env_ok = Inr 1" by (simp add: s0_def env_ok_def)
  note t = Limit_zero_prefetch_three [OF h1 h2, of s0 env_ok 1]
  from t h3 have q: "filter is_Qos (st_events (Start env_ok s0 w0)) = [Qos 1 3 0 False]"
    by blast
  have "Qos 1 3 0 False \<in> set (filter is_Qos (st_events (Start env_ok s0 w0)))"
    by (simp add: q)
  then have m: "Qos 1 3 0 False \<in> set (st_events (Start env_ok s0 w0))" by simp
  from t h1 h2 h3 q m show ?thesis by simp
qed

text \<open>
  C1. \<^verbatim>\<open>init\<close> sets \<^verbatim>\<open>w.working = true\<close> as its first statement and no error return
  resets it: on a worker that was not working, a \<^verbatim>\<open>Start\<close> that fails at the channel, at
  the prefetch or at the consumer registration returns its error and leaves the worker
  marked as working. No consumption loop was launched, so a \<^verbatim>\<open>Close\<close> of that worker
  passes the working check and blocks forever on its stop request.
\<close>
theorem failed_Start_leaves_working_set:
  "\<not> working w0
   \<and> st_ret (Start env_nochannel s0 w0) =
       Some ''Error during creating channel for worker: channel/connection is not open''
   \<and> working (st_worker (Start env_nochannel s0 w0))
   \<and> st_ret (Start env_noqos s0 w0) =
       Some ''Error during setting QoS for worker's channel: channel/connection is not open''
   \<and> working (st_worker (Start env_noqos s0 w0))
   \<and> st_ret (Start env_noconsume s0 w0) =
       Some ''Error during initialization queue consuming: channel/connection is not open''
   \<and> working (st_worker (Start env_noconsume s0 w0))
   \<and> GoConsume \<notin> set (st_events (Start env_nochannel s0 w0))
   \<and> cl_ending (Close False True (st_worker (Start env_nochannel s0 w0))
        :: (string, string) Close_out) = BlocksForever"
  by (simp add: Start_def init_def Close_def Let_def s0_def w0_def env_ok_def
      env_nochannel_def env_noqos_def env_noconsume_def)

subsection \<open>Close\<close>

lemma Close_idle:
  "\<not> working w \<Longrightarrow>
   (Close l dr w :: ('v, 'r) Close_out) =
     \<lparr>cl_events = [LogDebug (''Worker '' @ name w @ '' closing started'')],
      cl_worker = w, cl_ending = Completes\<rparr>"
  by (simp add: Close_def)

lemma Close_worker_idle: "\<not> working (cl_worker (Close l dr w))"
  by (simp add: Close_def Let_def split: option.splits)

lemma Close_worker_name: "name (cl_worker (Close l dr w)) = name w"
  by (simp add: Close_def Let_def split: option.splits)

lemma Close_w_started:
  "(Close True True w_started :: (string, string) Close_out) =
     \<lparr>cl_events = [LogDebug ''Worker w1 closing started'', Send StopConsume,
                   CloseChan StopConsume, Recv ConsumingStopped, CloseChan ConsumingStopped,
                   WgWait, ChClose 1, LogInfo ''Worker w1 is closed''],
      cl_worker = w_started\<lparr>working := False, stopConsume := ClosedChan,
                             consumingStopped := ClosedChan\<rparr>,
      cl_ending = Completes\<rparr>"
  by (simp add: Close_def Let_def w_started_def w0_def)

text \<open>
  C9. \<^verbatim>\<open>Close\<close> on a worker whose working flag is false logs its debug line and
  returns: the worker is unchanged, nothing is sent, received or waited for, and nothing
  panics. Every \<^verbatim>\<open>Close\<close> leaves the flag false, so a \<^verbatim>\<open>Close\<close> that follows another
  \<^verbatim>\<open>Close\<close> is such a call, whatever the other goroutines do.
\<close>
theorem Close_not_working_noop:
  "(\<not> working w \<longrightarrow>
      (Close l dr w :: ('v, 'r) Close_out) =
        \<lparr>cl_events = [LogDebug (''Worker '' @ name w @ '' closing started'')],
         cl_worker = w, cl_ending = Completes\<rparr>
      \<and> filter blocking (cl_events (Close l dr w :: ('v, 'r) Close_out)) = [])
   \<and> \<not> working (cl_worker (Close l dr w :: ('v, 'r) Close_out))
   \<and> (Close l2 dr2 (cl_worker (Close l dr w :: ('v, 'r) Close_out)) :: ('v, 'r) Close_out) =
        \<lparr>cl_events = [LogDebug (''Worker '' @ name w @ '' closing started'')],
         cl_worker = cl_worker (Close l dr w :: ('v, 'r) Close_out), cl_ending = Completes\<rparr>"
proof (intro conjI impI)
  assume idle: "\<not> working w"
  show "(Close l dr w :: ('v, 'r) Close_out) =
      \<lparr>cl_events = [LogDebug (''Worker '' @ name w @ '' closing started'')],
       cl_worker = w, cl_ending = Completes\<rparr>"
    using idle by (rule Close_idle)
  show "filter blocking (cl_events (Close l dr w :: ('v, 'r) Close_out)) = []"
    by (simp add: Close_idle [OF idle])
next
  show "\<not> working (cl_worker (Close l dr w :: ('v, 'r) Close_out))"
    by (rule Close_worker_idle)
next
  show "(Close l2 dr2 (cl_worker (Close l dr w :: ('v, 'r) Close_out)) :: ('v, 'r) Close_out) =
      \<lparr>cl_events = [LogDebug (''Worker '' @ name w @ '' closing started'')],
       cl_worker = cl_worker (Close l dr w :: ('v, 'r) Close_out), cl_ending = Completes\<rparr>"
    using Close_idle [OF Close_worker_idle] by (simp add: Close_worker_name)
qed

theorem Close_not_working_noop_witness:
  "\<not> working w0
   \<and> (Close True True w0 :: (string, string) Close_out) =
       \<lparr>cl_events = [LogDebug ''Worker w1 closing started''], cl_worker = w0,
        cl_ending = Completes\<rparr>
   \<and> filter blocking (cl_events (Close True True w0 :: (string, string) Close_out)) = []
   \<and> working w_started
   \<and> cl_ending (Close True True w_started :: (string, string) Close_out) = Completes
   \<and> (Close True True (cl_worker (Close True True w_started :: (string, string) Close_out))
        :: (string, string) Close_out) =
       \<lparr>cl_events = [LogDebug ''Worker w1 closing started''],
        cl_worker = cl_worker (Close True True w_started :: (string, string) Close_out),
        cl_ending = Completes\<rparr>"
proof -
  have h: "\<not> working w0" by (simp add: w0_def)
  have n0: "name w0 = ''w1''" by (simp add: w0_def)
  have n1: "name w_started = ''w1''" by (simp add: w_started_def w0_def)
  have g: "working w_started" by (simp add: w_started_def)
  have e: "cl_ending (Close True True w_started :: (string, string) Close_out) = Completes"
    by (simp add: Close_w_started)
  from Close_not_working_noop [of w0 True True True True, where ?'v = string] h n0
  have a: "(Close True True w0 :: (string, string) Close_out) =
       \<lparr>cl_events = [LogDebug ''Worker w1 closing started''], cl_worker = w0,
        cl_ending = Completes\<rparr>
     \<and> filter blocking (cl_events (Close True True w0 :: (string, string) Close_out)) = []"
    by simp
  from Close_not_working_noop [of w_started True True True True, where ?'v = string] n1
  have b: "(Close True True (cl_worker (Close True True w_started :: (string, string) Close_out))
        :: (string, string) Close_out) =
       \<lparr>cl_events = [LogDebug ''Worker w1 closing started''],
        cl_worker = cl_worker (Close True True w_started :: (string, string) Close_out),
        cl_ending = Completes\<rparr>"
    by simp
  from h a g e b show ?thesis by blast
qed

subsection \<open>The consumption loop\<close>

lemma decisions_Nil: "decisions [] = []"
  by (simp add: decisions_def)

lemma decisions_Cons:
  "decisions (e # es) = (if is_decision e then e # decisions es else decisions es)"
  by (simp add: decisions_def)

lemma decisions_append: "decisions (xs @ ys) = decisions xs @ decisions ys"
  by (simp add: decisions_def)

lemma consume_delivery_empty:
  "Body d = [] \<Longrightarrow> decisions (fst (consume_delivery env w d)) = [Nack d False False]"
  by (simp add: consume_delivery_def decisions_def split: option.splits)

lemma consume_delivery_unparsable:
  "Body d \<noteq> [] \<Longrightarrow> json_Unmarshal env (Body d) = Inl err \<Longrightarrow>
   decisions (fst (consume_delivery env w d)) = [Nack d False False]"
  by (simp add: consume_delivery_def decisions_def split: option.splits)

lemma consume_delivery_unparsable_log:
  "Body d \<noteq> [] \<Longrightarrow> json_Unmarshal env (Body d) = Inl err \<Longrightarrow>
   d_Nack env d False False = None \<Longrightarrow>
   consume_delivery env w d = ([Nack d False False, payload_log d], True)"
  by (simp add: consume_delivery_def payload_log_def)

lemma consume_delivery_unregistered:
  "Body d \<noteq> [] \<Longrightarrow> json_Unmarshal env (Body d) = Inr task \<Longrightarrow>
   tasks w (Task.Name task) = None \<Longrightarrow>
   decisions (fst (consume_delivery env w d)) = [Nack d False True]"
  by (simp add: consume_delivery_def decisions_def split: option.splits)

lemma consume_delivery_registered:
  "Body d \<noteq> [] \<Longrightarrow> json_Unmarshal env (Body d) = Inr task \<Longrightarrow>
   tasks w (Task.Name task) = Some taskConfig \<Longrightarrow>
   consume_delivery env w d = ([WgAdd 1, GoConsumeOne d task], True)"
  by (simp add: consume_delivery_def)

lemma consume_loop_decisions:
  "e \<in> set (fst (consume_loop env w sel)) \<Longrightarrow> is_decision e \<Longrightarrow>
   \<exists>d. Delivered d \<in> set sel \<and> e \<in> set (fst (consume_delivery env w d))"
proof (induction env w sel rule: consume_loop.induct)
  case (1 env w)
  then show ?case by simp
next
  case (2 env w rest)
  then show ?case by auto
next
  case (3 env w d rest)
  obtain evs go where step: "consume_delivery env w d = (evs, go)"
    by (cases "consume_delivery env w d")
  show ?case
  proof (cases go)
    case False
    with step "3.prems" show ?thesis by auto
  next
    case True
    obtain evs' st where rest: "consume_loop env w rest = (evs', st)"
      by (cases "consume_loop env w rest")
    from "3.prems" step True rest have "e \<in> set evs \<or> e \<in> set evs'" by auto
    then show ?thesis
    proof
      assume "e \<in> set evs"
      with step show ?thesis by auto
    next
      assume "e \<in> set evs'"
      with "3.IH" [OF step [symmetric]] True rest "3.prems"(2) show ?thesis by auto
    qed
  qed
qed

lemma consume_decisions:
  "e \<in> set (fst (consume env w sel)) \<Longrightarrow> is_decision e \<Longrightarrow>
   \<exists>d. Delivered d \<in> set sel \<and> e \<in> set (fst (consume_delivery env w d))"
proof -
  assume e: "e \<in> set (fst (consume env w sel))" and dec: "is_decision e"
  obtain evs st where l: "consume_loop env w sel = (evs, st)"
    by (cases "consume_loop env w sel")
  from e l dec have "e \<in> set (fst (consume_loop env w sel))"
    by (auto simp: consume_def)
  then show ?thesis using dec by (rule consume_loop_decisions)
qed

lemma consume_w_add_run:
  "consume env_ok w_add [Delivered d_mul, Delivered d_add, StopRequest] =
     ([LogInfo ''Worker w1 started consuming'',
       Nack d_mul False True,
       LogError (''Received task (mul-u-2) which is not registered in this worker, '' @
         ''task was requeued, but somebody should take it from this queue in other case '' @
         ''error will be retried''),
       WgAdd 1, GoConsumeOne d_add task_add,
       LogDebug ''Consuming stopped'', Send ConsumingStopped], Exited)"
  by (simp add: consume_def consume_delivery_def env_ok_def w_add_def w_started_def w0_def
      d_mul_def d_add_def task_add_def)

text \<open>
  C6, as stated, at one delivery. The body \<^verbatim>\<open>{\<close> does not parse and the \<^verbatim>\<open>Nack\<close> of
  the delivery returns an error (the channel is closed): the loop rejects without requeue,
  logs the error of the \<^verbatim>\<open>Nack\<close> and returns before it reaches the line that logs the
  raw payload.
\<close>
theorem unparsable_not_logged_counterexample:
  "Body d_bad \<noteq> [] \<and> isl (json_Unmarshal env_nonack (Body d_bad))
   \<and> consume_delivery env_nonack w0 d_bad =
       ([Nack d_bad False False, LogError ''Consuming stopped: channel/connection is not open''],
        False)
   \<and> payload_log d_bad \<notin> set (fst (consume_delivery env_nonack w0 d_bad))"
  by (simp add: consume_delivery_def env_nonack_def env_ok_def d_bad_def payload_log_def)

text \<open>
  C6, amended. For every delivery the loop takes: an empty body is rejected with requeue
  false; a body that does not parse is rejected with requeue false, and its raw payload
  is logged when that \<^verbatim>\<open>Nack\<close> returns no error, while on an error of the \<^verbatim>\<open>Nack\<close> the
  loop logs that error and returns; a task whose name is not in the dispatch table is
  rejected with requeue true; a task whose name is registered is not rejected by the
  loop, which adds one to the wait group and starts the execution unit. Every decision
  among the effects of the whole loop is the decision of one of its deliveries.
\<close>
theorem consume_requeue_flags:
  fixes env :: "('v, 'r) collaborators"
  shows
  "(Body d = [] \<longrightarrow> decisions (fst (consume_delivery env w d)) = [Nack d False False])
   \<and> (Body d \<noteq> [] \<and> json_Unmarshal env (Body d) = Inl err \<longrightarrow>
        decisions (fst (consume_delivery env w d)) = [Nack d False False]
        \<and> (d_Nack env d False False = None \<longrightarrow>
             consume_delivery env w d = ([Nack d False False, payload_log d], True))
        \<and> (d_Nack env d False False = Some er \<longrightarrow>
             consume_delivery env w d =
               ([Nack d False False, LogError (''Consuming stopped: '' @ er)], False)))
   \<and> (Body d \<noteq> [] \<and> json_Unmarshal env (Body d) = Inr task
        \<and> tasks w (Task.Name task) = None \<longrightarrow>
        decisions (fst (consume_delivery env w d)) = [Nack d False True])
   \<and> (Body d \<noteq> [] \<and> json_Unmarshal env (Body d) = Inr task
        \<and> tasks w (Task.Name task) = Some tc \<longrightarrow>
        consume_delivery env w d = ([WgAdd 1, GoConsumeOne d task], True)
        \<and> decisions (fst (consume_delivery env w d)) = [])
   \<and> (\<forall>e\<in>set (fst (consume env w sel)). is_decision e \<longrightarrow>
        (\<exists>d'. Delivered d' \<in> set sel \<and> e \<in> set (fst (consume_delivery env w d'))))"
proof -
  have a: "Body d = [] \<longrightarrow> decisions (fst (consume_delivery env w d)) = [Nack d False False]"
    by (simp add: consume_delivery_empty)
  have b: "Body d \<noteq> [] \<and> json_Unmarshal env (Body d) = Inl err \<longrightarrow>
        decisions (fst (consume_delivery env w d)) = [Nack d False False]
        \<and> (d_Nack env d False False = None \<longrightarrow>
             consume_delivery env w d = ([Nack d False False, payload_log d], True))
        \<and> (d_Nack env d False False = Some er \<longrightarrow>
             consume_delivery env w d =
               ([Nack d False False, LogError (''Consuming stopped: '' @ er)], False))"
    by (simp add: consume_delivery_unparsable consume_delivery_unparsable_log)
      (simp add: consume_delivery_def)
  have c: "Body d \<noteq> [] \<and> json_Unmarshal env (Body d) = Inr task
        \<and> tasks w (Task.Name task) = None \<longrightarrow>
        decisions (fst (consume_delivery env w d)) = [Nack d False True]"
    by (simp add: consume_delivery_unregistered)
  have r: "Body d \<noteq> [] \<and> json_Unmarshal env (Body d) = Inr task
        \<and> tasks w (Task.Name task) = Some tc \<longrightarrow>
        consume_delivery env w d = ([WgAdd 1, GoConsumeOne d task], True)
        \<and> decisions (fst (consume_delivery env w d)) = []"
    by (simp add: consume_delivery_registered decisions_Cons decisions_Nil)
  have l: "\<forall>e\<in>set (fst (consume env w sel)). is_decision e \<longrightarrow>
        (\<exists>d'. Delivered d' \<in> set sel \<and> e \<in> set (fst (consume_delivery env w d')))"
    using consume_decisions by blast
  from a b c r l show ?thesis by blast
qed

theorem consume_requeue_flags_witness:
  "Body d_empty = []
   \<and> decisions (fst (consume_delivery env_ok w_add d_empty)) = [Nack d_empty False False]
   \<and> Body d_bad \<noteq> [] \<and> json_Unmarshal env_ok (Body d_bad) = Inl ''unexpected end of JSON input''
   \<and> d_Nack env_ok d_bad False False = None
   \<and> consume_delivery env_ok w_add d_bad = ([Nack d_bad False False, payload_log d_bad], True)
   \<and> d_Nack env_nonack d_bad False False = Some ''channel/connection is not open''
   \<and> consume_delivery env_nonack w_add d_bad =
       ([Nack d_bad False False, LogError ''Consuming stopped: channel/connection is not open''],
        False)
   \<and> Body d_mul \<noteq> [] \<and> json_Unmarshal env_ok (Body d_mul) = Inr task_mul
   \<and> tasks w_add (Task.Name task_mul) = None
   \<and> decisions (fst (consume_delivery env_ok w_add d_mul)) = [Nack d_mul False True]
   \<and> Body d_add \<noteq> [] \<and> json_Unmarshal env_ok (Body d_add) = Inr task_add
   \<and> tasks w_add (Task.Name task_add) = Some tc_add
   \<and> consume_delivery env_ok w_add d_add = ([WgAdd 1, GoConsumeOne d_add task_add], True)
   \<and> decisions (fst (consume_delivery env_ok w_add d_add)) = []
   \<and> Nack d_mul False True
       \<in> set (fst (consume env_ok w_add [Delivered d_mul, Delivered d_add, StopRequest]))
   \<and> is_decision (Nack d_mul False True :: (string, string) event)
   \<and> (\<exists>d'. Delivered d' \<in> set [Delivered d_mul, Delivered d_add, StopRequest]
         \<and> Nack d_mul False True \<in> set (fst (consume_delivery env_ok w_add d')))"
proof -
  have e0: "Body d_empty = []" by (simp add: d_empty_def)
  have b0: "Body d_bad \<noteq> [] \<and> json_Unmarshal env_ok (Body d_bad) = Inl ''unexpected end of JSON input''
      \<and> d_Nack env_ok d_bad False False = None"
    by (simp add: d_bad_def env_ok_def)
  have b1: "Body d_bad \<noteq> [] \<and> json_Unmarshal env_nonack (Body d_bad) = Inl ''unexpected end of JSON input''
      \<and> d_Nack env_nonack d_bad False False = Some ''channel/connection is not open''"
    by (simp add: d_bad_def env_ok_def env_nonack_def)
  have m0: "Body d_mul \<noteq> [] \<and> json_Unmarshal env_ok (Body d_mul) = Inr task_mul
      \<and> tasks w_add (Task.Name task_mul) = None"
    by (simp add: d_mul_def env_ok_def task_mul_def w_add_def)
  have a0: "Body d_add \<noteq> [] \<and> json_Unmarshal env_ok (Body d_add) = Inr task_add
      \<and> tasks w_add (Task.Name task_add) = Some tc_add"
    by (simp add: d_add_def env_ok_def task_add_def w_add_def)
  have mem: "Nack d_mul False True
       \<in> set (fst (consume env_ok w_add [Delivered d_mul, Delivered d_add, StopRequest]))"
    by (simp add: consume_w_add_run)
  have dec: "is_decision (Nack d_mul False True :: (string, string) event)" by simp
  from consume_requeue_flags [where env = env_ok and w = w_add and d = d_empty] e0
  have a: "decisions (fst (consume_delivery env_ok w_add d_empty)) = [Nack d_empty False False]"
    by blast
  from consume_requeue_flags [where env = env_ok and w = w_add and d = d_bad
      and err = "''unexpected end of JSON input''"] b0
  have b: "consume_delivery env_ok w_add d_bad = ([Nack d_bad False False, payload_log d_bad], True)"
    by blast
  from consume_requeue_flags [where env = env_nonack and w = w_add and d = d_bad
      and err = "''unexpected end of JSON input''" and er = "''channel/connection is not open''"] b1
  have c: "consume_delivery env_nonack w_add d_bad =
       ([Nack d_bad False False, LogError ''Consuming stopped: channel/connection is not open''],
        False)"
    by simp
  from consume_requeue_flags [where env = env_ok and w = w_add and d = d_mul
      and task = task_mul] m0
  have d: "decisions (fst (consume_delivery env_ok w_add d_mul)) = [Nack d_mul False True]"
    by blast
  from consume_requeue_flags [where env = env_ok and w = w_add and d = d_add
      and task = task_add and tc = tc_add] a0
  have e: "consume_delivery env_ok w_add d_add = ([WgAdd 1, GoConsumeOne d_add task_add], True)
      \<and> decisions (fst (consume_delivery env_ok w_add d_add)) = []"
    by blast
  from consume_requeue_flags [where env = env_ok and w = w_add
      and sel = "[Delivered d_mul, Delivered d_add, StopRequest]"] mem dec
  have f: "\<exists>d'. Delivered d' \<in> set [Delivered d_mul, Delivered d_add, StopRequest]
         \<and> Nack d_mul False True \<in> set (fst (consume_delivery env_ok w_add d'))"
    by blast
  from e0 a b0 b b1 c m0 d a0 e mem dec f show ?thesis by blast
qed

subsection \<open>The execution unit\<close>

lemma reflectArgs_nth:
  "reflectArgs env args = Inr rs \<Longrightarrow>
   length rs = length args
   \<and> (\<forall>i<length args. ReflectValue env (Type (args ! i)) (Value (args ! i)) = Inr (rs ! i))"
proof (induction args arbitrary: rs)
  case Nil
  then show ?case by simp
next
  case (Cons a args)
  from Cons.prems obtain v vs where
    v: "ReflectValue env (Type a) (Value a) = Inr v" and
    vs: "reflectArgs env args = Inr vs" and
    rs: "rs = v # vs"
    by (auto split: sum.splits)
  from Cons.IH [OF vs] v rs show ?case by (auto simp: nth_Cons split: nat.splits)
qed

lemma tryCall_events_race:
  "tc_events (tryCall f args t tf1 :: ('v, 'r) tryCall_out) = tc_events (tryCall f args t tf2)"
  by (simp add: tryCall_def split: call_outcome.splits)

lemma tryCall_events_no_decision:
  "decisions (tc_events (tryCall f args t tf)) = []"
  by (simp add: tryCall_def decisions_def split: call_outcome.splits)

lemma tryCall_no_log: "filter is_log (tc_events (tryCall f args t tf)) = []"
  by (simp add: tryCall_def split: call_outcome.splits)

lemma tryCall_calls:
  "filter is_call (tc_events (tryCall f args t tf)) = (if t = 0 then [Call args] else [GoCall args])"
  by (simp add: tryCall_def split: call_outcome.splits)

lemma tryCall_sync:
  "tc_ret (tryCall f args 0 tf) = (if f args = Hangs then None else Some False)
   \<and> \<not> tc_crash (tryCall f args 0 tf)"
  by (simp add: tryCall_def split: call_outcome.splits)

lemma tryCall_returns:
  "f args = Returns \<Longrightarrow> \<exists>flag. tc_ret (tryCall f args t tf) = Some flag"
  by (auto simp: tryCall_def)

lemma tryCall_hang_timeout:
  "f args = Hangs \<Longrightarrow> t \<noteq> 0 \<Longrightarrow> tc_ret (tryCall f args t tf) = Some True"
  by (simp add: tryCall_def)

lemma consumeOne_decode_error:
  "reflectArgs env (callArgs taskConfig task) = Inl err \<Longrightarrow>
   consumeOne env w d task taskConfig tf =
     \<lparr>co_events = [LogInfo (''Handling task '' @ UUID task), Nack d False False,
        LogError (''Can't reflect task ('' @ UUID task @ '') arguments: '' @ err), WgDone],
      co_finished = True, co_crash = False\<rparr>"
  by (simp add: consumeOne_def)

lemma consumeOne_guard_returned:
  "reflectArgs env (callArgs taskConfig task) = Inr rargs \<Longrightarrow>
   tc_ret (tryCall (Function taskConfig) rargs (TimeoutSeconds taskConfig) tf
            :: ('v, 'r) tryCall_out) = Some flag \<Longrightarrow>
   co_events (consumeOne env w d task taskConfig tf) =
     [LogInfo (''Handling task '' @ UUID task)]
     @ tc_events (tryCall (Function taskConfig) rargs (TimeoutSeconds taskConfig) tf
                   :: ('v, 'r) tryCall_out)
     @ [LogInfo (if flag then ''Task '' @ UUID task @ '' exceeded timeout, taking next task''
                 else ''Task '' @ UUID task @ '' was finished''),
        Ack d False, WgDone]
   \<and> co_finished (consumeOne env w d task taskConfig tf)"
  by (simp add: consumeOne_def Let_def)

lemma consumeOne_guard_pending:
  "reflectArgs env (callArgs taskConfig task) = Inr rargs \<Longrightarrow>
   tc_ret (tryCall (Function taskConfig) rargs (TimeoutSeconds taskConfig) tf
            :: ('v, 'r) tryCall_out) = None \<Longrightarrow>
   co_events (consumeOne env w d task taskConfig tf) =
     [LogInfo (''Handling task '' @ UUID task)]
     @ tc_events (tryCall (Function taskConfig) rargs (TimeoutSeconds taskConfig) tf
                   :: ('v, 'r) tryCall_out)
   \<and> \<not> co_finished (consumeOne env w d task taskConfig tf)"
  by (simp add: consumeOne_def Let_def)

lemma consumeOne_calls:
  fixes env :: "('v, 'r) collaborators"
  assumes dec: "reflectArgs env (callArgs taskConfig task) = Inr rargs"
  shows "filter is_call (co_events (consumeOne env w d task taskConfig tf)) =
     (if TimeoutSeconds taskConfig = 0 then [Call rargs] else [GoCall rargs])"
proof -
  let ?r = "tryCall (Function taskConfig) rargs (TimeoutSeconds taskConfig) tf
              :: ('v, 'r) tryCall_out"
  show ?thesis
  proof (cases "tc_ret ?r")
    case None
    from consumeOne_guard_pending [OF dec None] show ?thesis
      by (simp add: tryCall_calls)
  next
    case (Some flag)
    from consumeOne_guard_returned [OF dec Some] show ?thesis
      by (simp add: tryCall_calls)
  qed
qed

lemma reflect_add: "reflectArgs env_ok (callArgs tc_add task_add) = Inr [''u-1'', ''7'']"
  by (simp add: callArgs_def tc_add_def task_add_def env_ok_def)

lemma reflect_badarg: "reflectArgs env_ok (callArgs tc_add task_badarg) = Inl ''unsupported type''"
  by (simp add: callArgs_def tc_add_def task_badarg_def env_ok_def)

lemma reflect_mul_slow: "reflectArgs env_ok (callArgs tc_slow task_mul) = Inr []"
  by (simp add: callArgs_def tc_slow_def task_mul_def)

lemma reflect_mul_panic: "reflectArgs env_ok (callArgs tc_panic task_mul) = Inr []"
  by (simp add: callArgs_def tc_panic_def task_mul_def)

lemma reflect_mul_race: "reflectArgs env_ok (callArgs tc_race task_mul) = Inr []"
  by (simp add: callArgs_def tc_race_def task_mul_def)

text \<open>
  The decisions of an execution unit. When the decoding of the arguments fails it is
  \<^verbatim>\<open>Nack(false, false)\<close>, and the handler is not invoked. When the decoding succeeds
  and the timeout guard returns, it is \<^verbatim>\<open>Ack(false)\<close>, the same for both values of the
  returned flag; as long as the guard has not returned no decision is issued. The guard
  returns for every handler that returns, and for a handler that never returns under a
  timeout other than 0.
\<close>
lemma consumeOne_decisions:
  fixes env :: "('v, 'r) collaborators"
  shows
  "(reflectArgs env (callArgs tc task) = Inl err \<longrightarrow>
      decisions (co_events (consumeOne env w d task tc tf)) = [Nack d False False]
      \<and> filter is_call (co_events (consumeOne env w d task tc tf)) = [])
   \<and> (reflectArgs env (callArgs tc task) = Inr rargs
      \<and> tc_ret (tryCall (Function tc) rargs (TimeoutSeconds tc) tf :: ('v, 'r) tryCall_out)
          = Some flag \<longrightarrow>
      decisions (co_events (consumeOne env w d task tc tf)) = [Ack d False])
   \<and> (reflectArgs env (callArgs tc task) = Inr rargs
      \<and> tc_ret (tryCall (Function tc) rargs (TimeoutSeconds tc) tf :: ('v, 'r) tryCall_out)
          = None \<longrightarrow>
      decisions (co_events (consumeOne env w d task tc tf)) = [])
   \<and> (reflectArgs env (callArgs tc task) = Inr rargs \<and> Function tc rargs = Returns \<longrightarrow>
      decisions (co_events (consumeOne env w d task tc tf)) = [Ack d False])
   \<and> (reflectArgs env (callArgs tc task) = Inr rargs \<and> Function tc rargs = Hangs
      \<and> TimeoutSeconds tc \<noteq> 0 \<longrightarrow>
      decisions (co_events (consumeOne env w d task tc tf)) = [Ack d False])"
proof -
  let ?r = "tryCall (Function tc) rargs (TimeoutSeconds tc) tf :: ('v, 'r) tryCall_out"
  have ret: "decisions (co_events (consumeOne env w d task tc tf)) = [Ack d False]"
    if "reflectArgs env (callArgs tc task) = Inr rargs" and "tc_ret ?r = Some b" for b
  proof -
    from consumeOne_guard_returned [OF that, of w d]
    have ev: "co_events (consumeOne env w d task tc tf) =
        [LogInfo (''Handling task '' @ UUID task)] @ tc_events ?r
        @ [LogInfo (if b then ''Task '' @ UUID task @ '' exceeded timeout, taking next task''
                    else ''Task '' @ UUID task @ '' was finished''),
           Ack d False, WgDone]"
      by blast
    show ?thesis
      unfolding ev
      by (simp add: decisions_append decisions_Cons decisions_Nil tryCall_events_no_decision)
  qed
  have a: "reflectArgs env (callArgs tc task) = Inl err \<longrightarrow>
      decisions (co_events (consumeOne env w d task tc tf)) = [Nack d False False]
      \<and> filter is_call (co_events (consumeOne env w d task tc tf)) = []"
    by (simp add: consumeOne_decode_error decisions_Cons decisions_Nil)
  have b: "reflectArgs env (callArgs tc task) = Inr rargs \<and> tc_ret ?r = Some flag \<longrightarrow>
      decisions (co_events (consumeOne env w d task tc tf)) = [Ack d False]"
    using ret by blast
  have c: "reflectArgs env (callArgs tc task) = Inr rargs \<and> tc_ret ?r = None \<longrightarrow>
      decisions (co_events (consumeOne env w d task tc tf)) = []"
  proof
    assume h: "reflectArgs env (callArgs tc task) = Inr rargs \<and> tc_ret ?r = None"
    from consumeOne_guard_pending [OF conjunct1 [OF h] conjunct2 [OF h], of w d]
    have ev: "co_events (consumeOne env w d task tc tf) =
        [LogInfo (''Handling task '' @ UUID task)] @ tc_events ?r"
      by blast
    show "decisions (co_events (consumeOne env w d task tc tf)) = []"
      unfolding ev
      by (simp add: decisions_append decisions_Cons decisions_Nil tryCall_events_no_decision)
  qed
  have d: "reflectArgs env (callArgs tc task) = Inr rargs \<and> Function tc rargs = Returns \<longrightarrow>
      decisions (co_events (consumeOne env w d task tc tf)) = [Ack d False]"
    using ret tryCall_returns [of "Function tc" rargs "TimeoutSeconds tc" tf] by blast
  have e: "reflectArgs env (callArgs tc task) = Inr rargs \<and> Function tc rargs = Hangs
      \<and> TimeoutSeconds tc \<noteq> 0 \<longrightarrow>
      decisions (co_events (consumeOne env w d task tc tf)) = [Ack d False]"
    using ret tryCall_hang_timeout [of "Function tc" rargs "TimeoutSeconds tc" tf] by blast
  from a b c d e show ?thesis by blast
qed

lemma consumeOne_decisions_examples:
  "reflectArgs env_ok (callArgs tc_add task_badarg) = Inl ''unsupported type''
   \<and> decisions (co_events (consumeOne env_ok w_add d_add task_badarg tc_add False))
       = [Nack d_add False False]
   \<and> filter is_call (co_events (consumeOne env_ok w_add d_add task_badarg tc_add False)) = []
   \<and> reflectArgs env_ok (callArgs tc_add task_add) = Inr [''u-1'', ''7'']
   \<and> Function tc_add [''u-1'', ''7''] = Returns
   \<and> tc_ret (tryCall (Function tc_add) [''u-1'', ''7''] (TimeoutSeconds tc_add) False
        :: (string, string) tryCall_out) = Some False
   \<and> decisions (co_events (consumeOne env_ok w_add d_add task_add tc_add False))
       = [Ack d_add False]
   \<and> reflectArgs env_ok (callArgs tc_slow task_mul) = Inr []
   \<and> Function tc_slow [] = Hangs \<and> TimeoutSeconds tc_slow \<noteq> 0
   \<and> tc_ret (tryCall (Function tc_slow) [] (TimeoutSeconds tc_slow) True
        :: (string, string) tryCall_out) = Some True
   \<and> decisions (co_events (consumeOne env_ok w_add d_mul task_mul tc_slow True))
       = [Ack d_mul False]
   \<and> reflectArgs env_ok (callArgs tc_panic task_mul) = Inr []
   \<and> tc_ret (tryCall (Function tc_panic) [] (TimeoutSeconds tc_panic) False
        :: (string, string) tryCall_out) = None
   \<and> decisions (co_events (consumeOne env_ok w_add d_mul task_mul tc_panic False)) = []"
proof -
  have f1: "Function tc_add [''u-1'', ''7''] = Returns" by (simp add: tc_add_def)
  have r1: "tc_ret (tryCall (Function tc_add) [''u-1'', ''7''] (TimeoutSeconds tc_add) False
        :: (string, string) tryCall_out) = Some False"
    by (simp add: tryCall_def tc_add_def)
  have f2: "Function tc_slow [] = Hangs \<and> TimeoutSeconds tc_slow \<noteq> 0"
    by (simp add: tc_slow_def)
  have r2: "tc_ret (tryCall (Function tc_slow) [] (TimeoutSeconds tc_slow) True
        :: (string, string) tryCall_out) = Some True"
    by (simp add: tryCall_def tc_slow_def)
  have r3: "tc_ret (tryCall (Function tc_panic) [] (TimeoutSeconds tc_panic) False
        :: (string, string) tryCall_out) = None"
    by (simp add: tryCall_def tc_panic_def)
  from consumeOne_decisions [where env = env_ok and tc = tc_add and task = task_badarg
      and err = "''unsupported type''" and w = w_add and d = d_add and tf = False]
    reflect_badarg
  have a: "decisions (co_events (consumeOne env_ok w_add d_add task_badarg tc_add False))
       = [Nack d_add False False]
     \<and> filter is_call (co_events (consumeOne env_ok w_add d_add task_badarg tc_add False)) = []"
    by blast
  from consumeOne_decisions [where env = env_ok and tc = tc_add and task = task_add
      and rargs = "[''u-1'', ''7'']" and flag = False and w = w_add and d = d_add and tf = False]
    reflect_add r1
  have b: "decisions (co_events (consumeOne env_ok w_add d_add task_add tc_add False))
       = [Ack d_add False]"
    by blast
  from consumeOne_decisions [where env = env_ok and tc = tc_slow and task = task_mul
      and rargs = "[]" and w = w_add and d = d_mul and tf = True]
    reflect_mul_slow f2
  have c: "decisions (co_events (consumeOne env_ok w_add d_mul task_mul tc_slow True))
       = [Ack d_mul False]"
    by blast
  from consumeOne_decisions [where env = env_ok and tc = tc_panic and task = task_mul
      and rargs = "[]" and w = w_add and d = d_mul and tf = False]
    reflect_mul_panic r3
  have d: "decisions (co_events (consumeOne env_ok w_add d_mul task_mul tc_panic False)) = []"
    by blast
  from reflect_badarg a reflect_add f1 r1 b reflect_mul_slow f2 r2 c reflect_mul_panic r3 d
  show ?thesis by blast
qed

text \<open>
  C3. A delivery that the loop accepts and that gets no decision. The body \<^verbatim>\<open>mul\<close>
  parses, its task is in the dispatch table with \<^verbatim>\<open>TimeoutSeconds\<close> 1, and the loop
  starts the execution unit. The arguments decode, the handler panics on the goroutine
  that \<^verbatim>\<open>tryCall\<close> started for it before the timer fires, and the process ends:
  \<^verbatim>\<open>tryCall\<close> does not return, and \<^verbatim>\<open>consumeOne\<close> issues neither \<^verbatim>\<open>Ack\<close> nor
  \<^verbatim>\<open>Nack\<close> and never reaches its \<^verbatim>\<open>Done\<close>. The same handler under \<^verbatim>\<open>TimeoutSeconds\<close> 0
  is recovered and the delivery gets its one \<^verbatim>\<open>Ack(false)\<close>.
\<close>
theorem accepted_delivery_without_decision:
  "Body d_mul \<noteq> [] \<and> json_Unmarshal env_ok (Body d_mul) = Inr task_mul
   \<and> tasks w_panic (Task.Name task_mul) = Some tc_panic
   \<and> consume_delivery env_ok w_panic d_mul = ([WgAdd 1, GoConsumeOne d_mul task_mul], True)
   \<and> reflectArgs env_ok (callArgs tc_panic task_mul) = Inr []
   \<and> consumeOne env_ok w_panic d_mul task_mul tc_panic False =
       \<lparr>co_events = [LogInfo ''Handling task u-2'', NewTimer 1, GoCall []],
        co_finished = False, co_crash = True\<rparr>
   \<and> decisions (co_events (consumeOne env_ok w_panic d_mul task_mul tc_panic False)) = []
   \<and> decisions (co_events (consumeOne env_ok w_panic d_mul task_mul tc_panic_sync False))
       = [Ack d_mul False]"
  by (simp add: consume_delivery_def consumeOne_def tryCall_def callArgs_def Let_def
      decisions_def env_ok_def w_panic_def w_started_def w0_def d_mul_def task_mul_def
      tc_panic_def tc_panic_sync_def)
text \<open>
  C2. With \<^verbatim>\<open>TimeoutSeconds\<close> 0 a panic of the handler is caught by the deferred
  \<^verbatim>\<open>recover\<close> of \<^verbatim>\<open>tryCall\<close> and the stack is printed. With \<^verbatim>\<open>TimeoutSeconds\<close> 1 the
  same handler runs on its own goroutine, where nothing recovers: the panic ends the
  process, no stack is printed by \<^verbatim>\<open>tryCall\<close>, and when the panic comes before the timer
  the guard never returns and the delivery gets no acknowledgment.
\<close>
theorem panic_under_timeout_not_recovered:
  "(tryCall (Function tc_panic_sync) [] (TimeoutSeconds tc_panic_sync) False
      :: (string, string) tryCall_out) =
     \<lparr>tc_events = [Call [], PrintStack], tc_ret = Some False, tc_crash = False\<rparr>
   \<and> (tryCall (Function tc_panic) [] (TimeoutSeconds tc_panic) False
      :: (string, string) tryCall_out) =
     \<lparr>tc_events = [NewTimer 1, GoCall []], tc_ret = None, tc_crash = True\<rparr>
   \<and> (tryCall (Function tc_panic) [] (TimeoutSeconds tc_panic) True
      :: (string, string) tryCall_out) =
     \<lparr>tc_events = [NewTimer 1, GoCall []], tc_ret = Some True, tc_crash = True\<rparr>
   \<and> consumeOne env_ok w_add d_mul task_mul tc_panic False =
     \<lparr>co_events = [LogInfo ''Handling task u-2'', NewTimer 1, GoCall []],
      co_finished = False, co_crash = True\<rparr>
   \<and> co_crash (consumeOne env_ok w_add d_mul task_mul tc_panic True)
   \<and> PrintStack \<notin> set (co_events (consumeOne env_ok w_add d_mul task_mul tc_panic True))"
  by (simp add: consumeOne_def tryCall_def callArgs_def Let_def tc_panic_def tc_panic_sync_def
      task_mul_def)

text \<open>
  C8. With \<^verbatim>\<open>TimeoutSeconds\<close> 0, \<^verbatim>\<open>tryCall\<close> invokes the handler once, on its own
  goroutine, starts no timer, lets no panic escape, and returns \<^verbatim>\<open>false\<close> as soon as the
  handler's call ends; it never returns \<^verbatim>\<open>true\<close>. In \<^verbatim>\<open>consumeOne\<close> the returned flag
  selects the second log line and nothing else: two runs on the same delivery whose
  guards return, whatever the flags, perform the same effects apart from the log lines,
  and both issue \<^verbatim>\<open>Ack(false)\<close>.
\<close>
theorem tryCall_zero_timeout_sync:
  fixes env :: "('v, 'r) collaborators"
  shows
  "filter is_call (tc_events (tryCall f args 0 tf :: ('v, 'r) tryCall_out)) = [Call args]
   \<and> tc_ret (tryCall f args 0 tf :: ('v, 'r) tryCall_out)
       = (if f args = Hangs then None else Some False)
   \<and> \<not> tc_crash (tryCall f args 0 tf :: ('v, 'r) tryCall_out)
   \<and> (reflectArgs env (callArgs tc task) = Inr rargs
      \<and> tc_ret (tryCall (Function tc) rargs (TimeoutSeconds tc) tfa :: ('v, 'r) tryCall_out)
          = Some flaga
      \<and> tc_ret (tryCall (Function tc) rargs (TimeoutSeconds tc) tfb :: ('v, 'r) tryCall_out)
          = Some flagb \<longrightarrow>
        filter (\<lambda>e. \<not> is_log e) (co_events (consumeOne env w d task tc tfa))
          = filter (\<lambda>e. \<not> is_log e) (co_events (consumeOne env w d task tc tfb))
      \<and> decisions (co_events (consumeOne env w d task tc tfa)) = [Ack d False]
      \<and> decisions (co_events (consumeOne env w d task tc tfb)) = [Ack d False]
      \<and> filter is_log (co_events (consumeOne env w d task tc tfa)) =
          [LogInfo (''Handling task '' @ UUID task),
           LogInfo (if flaga then ''Task '' @ UUID task @ '' exceeded timeout, taking next task''
                    else ''Task '' @ UUID task @ '' was finished'')])"
proof (intro conjI impI)
  show "filter is_call (tc_events (tryCall f args 0 tf :: ('v, 'r) tryCall_out)) = [Call args]"
    by (simp add: tryCall_calls)
  show "tc_ret (tryCall f args 0 tf :: ('v, 'r) tryCall_out)
      = (if f args = Hangs then None else Some False)"
    by (simp add: tryCall_sync)
  show "\<not> tc_crash (tryCall f args 0 tf :: ('v, 'r) tryCall_out)"
    by (simp add: tryCall_sync)
next
  assume h: "reflectArgs env (callArgs tc task) = Inr rargs
      \<and> tc_ret (tryCall (Function tc) rargs (TimeoutSeconds tc) tfa :: ('v, 'r) tryCall_out)
          = Some flaga
      \<and> tc_ret (tryCall (Function tc) rargs (TimeoutSeconds tc) tfb :: ('v, 'r) tryCall_out)
          = Some flagb"
  let ?t1 = "tryCall (Function tc) rargs (TimeoutSeconds tc) tfa :: ('v, 'r) tryCall_out"
  let ?t2 = "tryCall (Function tc) rargs (TimeoutSeconds tc) tfb :: ('v, 'r) tryCall_out"
  from h have dec: "reflectArgs env (callArgs tc task) = Inr rargs"
    and g1: "tc_ret ?t1 = Some flaga" and g2: "tc_ret ?t2 = Some flagb"
    by blast+
  from consumeOne_guard_returned [OF dec g1, of w d]
  have e1: "co_events (consumeOne env w d task tc tfa) =
      [LogInfo (''Handling task '' @ UUID task)] @ tc_events ?t1
      @ [LogInfo (if flaga then ''Task '' @ UUID task @ '' exceeded timeout, taking next task''
                  else ''Task '' @ UUID task @ '' was finished''),
         Ack d False, WgDone]"
    by blast
  from consumeOne_guard_returned [OF dec g2, of w d]
  have e2: "co_events (consumeOne env w d task tc tfb) =
      [LogInfo (''Handling task '' @ UUID task)] @ tc_events ?t2
      @ [LogInfo (if flagb then ''Task '' @ UUID task @ '' exceeded timeout, taking next task''
                  else ''Task '' @ UUID task @ '' was finished''),
         Ack d False, WgDone]"
    by blast
  have same: "tc_events ?t1 = tc_events ?t2" by (rule tryCall_events_race)
  show "filter (\<lambda>e. \<not> is_log e) (co_events (consumeOne env w d task tc tfa))
      = filter (\<lambda>e. \<not> is_log e) (co_events (consumeOne env w d task tc tfb))"
    unfolding e1 e2 by (simp add: same)
  show "decisions (co_events (consumeOne env w d task tc tfa)) = [Ack d False]"
    unfolding e1
    by (simp add: decisions_append decisions_Cons decisions_Nil tryCall_events_no_decision)
  show "decisions (co_events (consumeOne env w d task tc tfb)) = [Ack d False]"
    unfolding e2
    by (simp add: decisions_append decisions_Cons decisions_Nil tryCall_events_no_decision)
  show "filter is_log (co_events (consumeOne env w d task tc tfa)) =
      [LogInfo (''Handling task '' @ UUID task),
       LogInfo (if flaga then ''Task '' @ UUID task @ '' exceeded timeout, taking next task''
                else ''Task '' @ UUID task @ '' was finished'')]"
    unfolding e1 by (simp add: tryCall_no_log)
qed

theorem tryCall_zero_timeout_sync_witness:
  "reflectArgs env_ok (callArgs tc_race task_mul) = Inr []
   \<and> tc_ret (tryCall (Function tc_race) [] (TimeoutSeconds tc_race) False
        :: (string, string) tryCall_out) = Some False
   \<and> tc_ret (tryCall (Function tc_race) [] (TimeoutSeconds tc_race) True
        :: (string, string) tryCall_out) = Some True
   \<and> filter (\<lambda>e. \<not> is_log e) (co_events (consumeOne env_ok w_add d_mul task_mul tc_race False))
       = filter (\<lambda>e. \<not> is_log e) (co_events (consumeOne env_ok w_add d_mul task_mul tc_race True))
   \<and> decisions (co_events (consumeOne env_ok w_add d_mul task_mul tc_race False))
       = [Ack d_mul False]
   \<and> decisions (co_events (consumeOne env_ok w_add d_mul task_mul tc_race True))
       = [Ack d_mul False]
   \<and> filter is_log (co_events (consumeOne env_ok w_add d_mul task_mul tc_race False)) =
       [LogInfo ''Handling task u-2'', LogInfo ''Task u-2 was finished'']"
proof -
  have r1: "tc_ret (tryCall (Function tc_race) [] (TimeoutSeconds tc_race) False
        :: (string, string) tryCall_out) = Some False"
    by (simp add: tryCall_def tc_race_def)
  have r2: "tc_ret (tryCall (Function tc_race) [] (TimeoutSeconds tc_race) True
        :: (string, string) tryCall_out) = Some True"
    by (simp add: tryCall_def tc_race_def)
  have u: "UUID task_mul = ''u-2''" by (simp add: task_mul_def)
  from tryCall_zero_timeout_sync [where env = env_ok and tc = tc_race and task = task_mul
      and rargs = "[]" and tfa = False and tfb = True and flaga = False and flagb = True
      and w = w_add and d = d_mul]
    reflect_mul_race r1 r2
  have a: "filter (\<lambda>e. \<not> is_log e) (co_events (consumeOne env_ok w_add d_mul task_mul tc_race False))
       = filter (\<lambda>e. \<not> is_log e) (co_events (consumeOne env_ok w_add d_mul task_mul tc_race True))
     \<and> decisions (co_events (consumeOne env_ok w_add d_mul task_mul tc_race False))
       = [Ack d_mul False]
     \<and> decisions (co_events (consumeOne env_ok w_add d_mul task_mul tc_race True))
       = [Ack d_mul False]
     \<and> filter is_log (co_events (consumeOne env_ok w_add d_mul task_mul tc_race False)) =
       [LogInfo ''Handling task u-2'', LogInfo ''Task u-2 was finished'']"
    by (simp add: u)
  from reflect_mul_race r1 r2 a show ?thesis by blast
qed

text \<open>
  C7. With \<^verbatim>\<open>TaskUUIDAsFirstArg\<close> set, the argument list that is decoded is the original
  \<^verbatim>\<open>Args\<close> with one argument of type \<^verbatim>\<open>string\<close> carrying the task UUID in front. When
  the decoding succeeds, the handler is invoked once, with the decoded UUID as its first
  argument and then the decoded original arguments, each at its original position.
\<close>
theorem uuid_first_argument:
  fixes env :: "('v, 'r) collaborators"
  assumes "TaskUUIDAsFirstArg tc"
  shows
  "callArgs tc task = \<lparr>Type = ''string'', Value = GoString (UUID task)\<rparr> # Args task
   \<and> (reflectArgs env (callArgs tc task) = Inr rargs \<longrightarrow>
        (\<exists>u rest. ReflectValue env ''string'' (GoString (UUID task)) = Inr u
           \<and> reflectArgs env (Args task) = Inr rest
           \<and> rargs = u # rest
           \<and> length rest = length (Args task)
           \<and> (\<forall>i<length (Args task).
                 ReflectValue env (Type (Args task ! i)) (Value (Args task ! i)) = Inr (rest ! i))
           \<and> filter is_call (co_events (consumeOne env w d task tc tf)) =
               (if TimeoutSeconds tc = 0 then [Call (u # rest)] else [GoCall (u # rest)])))"
proof (intro conjI impI)
  show ca: "callArgs tc task = \<lparr>Type = ''string'', Value = GoString (UUID task)\<rparr> # Args task"
    using assms by (simp add: callArgs_def)
  assume dec: "reflectArgs env (callArgs tc task) = Inr rargs"
  from dec ca obtain u rest where
    u: "ReflectValue env ''string'' (GoString (UUID task)) = Inr u" and
    rest: "reflectArgs env (Args task) = Inr rest" and
    rargs: "rargs = u # rest"
    by (auto split: sum.splits)
  from reflectArgs_nth [OF rest] consumeOne_calls [OF dec, of w d tf] u rest rargs
  show "\<exists>u rest. ReflectValue env ''string'' (GoString (UUID task)) = Inr u
           \<and> reflectArgs env (Args task) = Inr rest
           \<and> rargs = u # rest
           \<and> length rest = length (Args task)
           \<and> (\<forall>i<length (Args task).
                 ReflectValue env (Type (Args task ! i)) (Value (Args task ! i)) = Inr (rest ! i))
           \<and> filter is_call (co_events (consumeOne env w d task tc tf)) =
               (if TimeoutSeconds tc = 0 then [Call (u # rest)] else [GoCall (u # rest)])"
    by blast
qed

theorem uuid_first_argument_witness:
  "TaskUUIDAsFirstArg tc_add
   \<and> callArgs tc_add task_add =
       [\<lparr>Type = ''string'', Value = GoString ''u-1''\<rparr>, \<lparr>Type = ''int'', Value = Other ''7''\<rparr>]
   \<and> reflectArgs env_ok (callArgs tc_add task_add) = Inr [''u-1'', ''7'']
   \<and> UUID task_add = ''u-1''
   \<and> filter is_call (co_events (consumeOne env_ok w_add d_add task_add tc_add False))
       = [Call [''u-1'', ''7'']]"
proof -
  have h: "TaskUUIDAsFirstArg tc_add" by (simp add: tc_add_def)
  have t0: "TimeoutSeconds tc_add = 0" by (simp add: tc_add_def)
  have u: "UUID task_add = ''u-1''" by (simp add: task_add_def)
  have ar: "Args task_add = [\<lparr>Type = ''int'', Value = Other ''7''\<rparr>]" by (simp add: task_add_def)
  note t = uuid_first_argument [OF h, where env = env_ok and task = task_add
      and rargs = "[''u-1'', ''7'']" and w = w_add and d = d_add and tf = False]
  from t have a: "callArgs tc_add task_add =
       [\<lparr>Type = ''string'', Value = GoString ''u-1''\<rparr>, \<lparr>Type = ''int'', Value = Other ''7''\<rparr>]"
    by (simp add: u ar)
  from t reflect_add obtain x rest where
    "[''u-1'', ''7''] = x # rest" and
    "filter is_call (co_events (consumeOne env_ok w_add d_add task_add tc_add False)) =
       (if TimeoutSeconds tc_add = 0 then [Call (x # rest)] else [GoCall (x # rest)])"
    by blast
  then have b: "filter is_call (co_events (consumeOne env_ok w_add d_add task_add tc_add False))
       = [Call [''u-1'', ''7'']]"
    by (simp add: t0)
  from h a reflect_add u b show ?thesis by blast
qed

end
